theory Spec2Isabelle
  imports Complex_Main "HOL-Library.Multiset" "HOL-Library.AList"
begin

section \<open>Gravitational potential of the Solar System: the model\<close>

text \<open>
  A shallow embedding of \<^verbatim>\<open>gravitational_potential_solar_system.py\<close>.

  Numbers. Python's \<^verbatim>\<open>int\<close> and \<^verbatim>\<open>float\<close> and the finite values of numpy's
  \<^verbatim>\<open>float64\<close> are modelled by \<^typ>\<open>real\<close>: arithmetic is exact, there is no rounding
  and no overflow. Division by zero is where the two kinds of number part: between
  Python's own numbers it raises ZeroDivisionError (\<open>truediv\<close>); with a numpy
  \<^verbatim>\<open>float64\<close> as an operand it gives \<^verbatim>\<open>inf\<close>, \<^verbatim>\<open>-inf\<close> or \<^verbatim>\<open>nan\<close> with a warning, and the
  run goes on (\<open>np_truediv\<close>). A value that may be one of these three is an
  \<open>np_float\<close>: \<open>Finite x\<close>, or \<open>NonFinite\<close> for any of the three, which is all the
  program's arithmetic on them needs (the negation of one of them, and its sum with
  any number, is again one of them).

  Errors. Every function that can raise returns \<open>py_error + 'a\<close>, with \<open>Inl\<close> the
  exception.

  Dictionaries. A Python \<^verbatim>\<open>dict\<close> keeps insertion order and unique keys; it is an
  association list, \<^verbatim>\<open>d[k] = v\<close> is \<^const>\<open>AList.update\<close> (replace in place, or
  append) and \<^verbatim>\<open>d.get(k)\<close> is \<^const>\<open>map_of\<close>.
\<close>

datatype py_error =
    ZeroDivisionError
  | TypeError
  | ValueError
  | KeyError string
  | FileNotFoundError
  | PermissionError
  | JSONDecodeError
  | RequestException

text \<open>Python's \<^verbatim>\<open>a / b\<close> between Python's own numbers.\<close>

definition truediv :: "real \<Rightarrow> real \<Rightarrow> py_error + real" where
  "truediv a b = (if b = 0 then Inl ZeroDivisionError else Inr (a / b))"

text \<open>
  The results of numpy's arithmetic, and \<^verbatim>\<open>a / b\<close>, \<^verbatim>\<open>-a\<close> and \<^verbatim>\<open>a + b\<close> where an
  operand is a numpy \<^verbatim>\<open>float64\<close>.
\<close>

datatype np_float = Finite real | NonFinite

definition np_truediv :: "real \<Rightarrow> real \<Rightarrow> np_float" where
  "np_truediv a b = (if b = 0 then NonFinite else Finite (a / b))"

fun np_neg :: "np_float \<Rightarrow> np_float" where
  "np_neg (Finite x) = Finite (- x)"
| "np_neg NonFinite = NonFinite"

fun np_add :: "np_float \<Rightarrow> np_float \<Rightarrow> np_float" where
  "np_add (Finite x) (Finite y) = Finite (x + y)"
| "np_add _ _ = NonFinite"

subsection \<open>Constants (lines 4-6)\<close>

definition G :: real where
  "G = 7.4 * 10 powi (- 28)"

definition M_sun :: real where
  "M_sun = 1.989 * 10 ^ 30"

definition R_sun :: real where
  "R_sun = 7 * 10 ^ 8"

subsection \<open>The potential (lines 9-13)\<close>

text \<open>
  The function is written once and runs on either kind of number. \<open>get_phi\<close> is the
  call on Python's own numbers. \<open>get_phi_np\<close> is the call with \<open>S\<close> a numpy
  \<^verbatim>\<open>float64\<close>, which is every call the sampler makes: there \<open>S\<close> is an element of an
  \<^verbatim>\<open>np.arange\<close>, or computed from one, so both divisions have a numpy operand (in the
  first the dividend, which contains \<open>S\<close>; in the second the divisor \<open>S\<close>).
\<close>

definition get_phi :: "real \<Rightarrow> real \<Rightarrow> real \<Rightarrow> py_error + real" where
  "get_phi M R S =
     (if S < R then truediv (G * M * (S ^ 2 - 3 * (R ^ 2))) (2 * (R ^ 3))
      else truediv (- G * M) S)"

definition get_phi_np :: "real \<Rightarrow> real \<Rightarrow> real \<Rightarrow> np_float" where
  "get_phi_np M R S =
     (if S < R then np_truediv (G * M * (S ^ 2 - 3 * (R ^ 2))) (2 * (R ^ 3))
      else np_truediv (- G * M) S)"

text \<open>
  The potential as the specification words it (section 4.1), for comparison with
  \<^const>\<open>get_phi\<close>: the value of the formula, where the formula has one.
\<close>

definition potential_spec :: "real \<Rightarrow> real \<Rightarrow> real \<Rightarrow> real option" where
  "potential_spec M R S =
     (if S < R
      then (if 2 * R ^ 3 = 0 then None
            else Some ((74 / 10 ^ 29) * M * (S\<^sup>2 - 3 * R\<^sup>2) / (2 * R ^ 3)))
      else (if S = 0 then None else Some (- (74 / 10 ^ 29) * M / S)))"

subsection \<open>numpy: \<^verbatim>\<open>arange\<close>, \<^verbatim>\<open>linspace\<close>, the slice \<^verbatim>\<open>[1:-1]\<close>\<close>

text \<open>
  \<^verbatim>\<open>np.arange(start, stop, step)\<close> has \<open>\<lceil>(stop - start) / step\<rceil>\<close> elements (none when
  that is not positive), the \<open>i\<close>-th being \<open>start + i * step\<close>; the length is computed
  by a division, which raises for a zero step.
\<close>

definition arange :: "real \<Rightarrow> real \<Rightarrow> real \<Rightarrow> py_error + real list" where
  "arange start stop step =
     (case truediv (stop - start) step of
        Inl e \<Rightarrow> Inl e
      | Inr q \<Rightarrow> Inr (map (\<lambda>i. start + real i * step) [0..<nat \<lceil>q\<rceil>]))"

text \<open>
  \<^verbatim>\<open>np.linspace(start, stop, num)\<close> (end point included): \<open>num\<close> points, the \<open>i\<close>-th
  being \<open>start + i * step\<close> with \<open>step = (stop - start) / (num - 1)\<close>, and the last
  one set to \<open>stop\<close>.
\<close>

definition linspace :: "real \<Rightarrow> real \<Rightarrow> int \<Rightarrow> py_error + real list" where
  "linspace start stop num =
     (if num < 0 then Inl ValueError
      else if num = 0 then Inr []
      else if num = 1 then Inr [start]
      else (let step = (stop - start) / real_of_int (num - 1)
            in Inr (map (\<lambda>i. start + real i * step) [0..<nat num - 1] @ [stop])))"

definition slice_1_m1 :: "'a list \<Rightarrow> 'a list" where
  "slice_1_m1 xs = butlast (drop 1 xs)"

subsection \<open>The tick helper (lines 16-39)\<close>

record log_locator =
  base :: real
  subs :: "real list"
  numticks :: nat

datatype formatter = NullFormatter

record yaxis =
  major_locator :: log_locator
  minor_locator :: log_locator
  minor_formatter :: formatter

text \<open>
  What the helper installs on the Y axis. A \<^verbatim>\<open>LogLocator\<close> built without \<^verbatim>\<open>subs\<close>
  has \<^verbatim>\<open>subs=(1.0,)\<close>.
\<close>

definition restore_minor_ticks_log_plot :: "int \<Rightarrow> py_error + yaxis" where
  "restore_minor_ticks_log_plot n_subticks =
     (let locmaj = \<lparr>base = 10, subs = [1], numticks = 1000\<rparr>
      in case linspace 0 1 (n_subticks + 2) of
           Inl e \<Rightarrow> Inl e
         | Inr pts \<Rightarrow>
             Inr \<lparr>major_locator = locmaj,
                  minor_locator = \<lparr>base = 10, subs = slice_1_m1 pts, numticks = 1000\<rparr>,
                  minor_formatter = NullFormatter\<rparr>)"

text \<open>The default of the parameter \<^verbatim>\<open>n_subticks\<close>, which the call of line 121 leaves out.\<close>

definition n_subticks_default :: int where
  "n_subticks_default = 9"

subsection \<open>The data provider (lines 42-53)\<close>

type_synonym planet = "(string \<times> real) list"
type_synonym dataset = "(string \<times> planet) list"

text \<open>
  The outside world: the text of each file that can be opened for reading, the body
  of the answer of each URL that answers, and whether the working directory accepts a
  write. \<^verbatim>\<open>json.load\<close> and \<^verbatim>\<open>json.dump\<close> are library functions and are parameters
  \<open>loads\<close> (\<open>None\<close>: the text does not parse) and \<open>dumps\<close>.
\<close>

record world =
  files :: "string \<rightharpoonup> string"
  remote :: "string \<rightharpoonup> string"
  writable :: bool

definition fname :: string where
  "fname = ''planetary_factsheet.json''"

definition url :: string where
  "url = ''https://raw.githubusercontent.com/sempostma/planetary-factsheet/master/data.json''"

text \<open>Lines 47-48: open the cache file and parse it.\<close>

definition read_cache :: "(string \<Rightarrow> dataset option) \<Rightarrow> world \<Rightarrow> py_error + dataset" where
  "read_cache loads w =
     (case files w fname of
        None \<Rightarrow> Inl FileNotFoundError
      | Some txt \<Rightarrow> (case loads txt of None \<Rightarrow> Inl JSONDecodeError | Some d \<Rightarrow> Inr d))"

text \<open>Line 50: fetch the remote dataset and parse the answer.\<close>

definition fetch :: "(string \<Rightarrow> dataset option) \<Rightarrow> world \<Rightarrow> py_error + dataset" where
  "fetch loads w =
     (case remote w url of
        None \<Rightarrow> Inl RequestException
      | Some txt \<Rightarrow> (case loads txt of None \<Rightarrow> Inl JSONDecodeError | Some d \<Rightarrow> Inr d))"

text \<open>Lines 51-52: open the cache file for writing and dump the data into it.\<close>

definition write_cache :: "(dataset \<Rightarrow> string) \<Rightarrow> dataset \<Rightarrow> world \<Rightarrow> py_error + world" where
  "write_cache dumps d w =
     (if writable w then Inr (w\<lparr>files := (files w)(fname \<mapsto> dumps d)\<rparr>)
      else Inl PermissionError)"

text \<open>The bare \<^verbatim>\<open>except:\<close> catches every error of the \<^verbatim>\<open>try\<close> block.\<close>

definition get_solar_system_data ::
  "(string \<Rightarrow> dataset option) \<Rightarrow> (dataset \<Rightarrow> string) \<Rightarrow> world \<Rightarrow> (py_error + dataset) \<times> world" where
  "get_solar_system_data loads dumps w =
     (case read_cache loads w of
        Inr d \<Rightarrow> (Inr d, w)
      | Inl _ \<Rightarrow>
          (case fetch loads w of
             Inl e \<Rightarrow> (Inl e, w)
           | Inr d \<Rightarrow>
               (case write_cache dumps d w of
                  Inl e \<Rightarrow> (Inl e, w)
                | Inr w' \<Rightarrow> (Inr d, w'))))"

subsection \<open>The sampler (lines 56-92)\<close>

record body =
  pM :: real
  pS :: real
  pR :: real

type_synonym sample = "real \<times> np_float"
type_synonym bodies = "(string \<times> body) list"
type_synonym curves = "(string \<times> sample list) list"

text \<open>Lines 59-63, for one planet; a missing key gives \<^verbatim>\<open>None * 10**24\<close>, a TypeError.\<close>

definition to_body :: "planet \<Rightarrow> py_error + body" where
  "to_body planet =
     (case map_of planet ''mass10_24Kg'' of
        None \<Rightarrow> Inl TypeError
      | Some m \<Rightarrow>
     (case map_of planet ''semimajorAxis10_6Km'' of
        None \<Rightarrow> Inl TypeError
      | Some a \<Rightarrow>
     (case map_of planet ''volumetricMeanRadiusKm'' of
        None \<Rightarrow> Inl TypeError
      | Some r \<Rightarrow> Inr \<lparr>pM = m * 10 ^ 24, pS = a * (10 ^ 9), pR = r * (10 ^ 3)\<rparr>)))"

text \<open>Lines 58-63: the dict comprehension.\<close>

fun convert_loop :: "dataset \<Rightarrow> bodies \<Rightarrow> py_error + bodies" where
  "convert_loop [] data = Inr data"
| "convert_loop ((name, planet) # rest) data =
     (case to_body planet of
        Inl e \<Rightarrow> Inl e
      | Inr b \<Rightarrow> convert_loop rest (AList.update name b data))"

text \<open>Python's \<^verbatim>\<open>max\<close> of an iterable.\<close>

definition py_max :: "real list \<Rightarrow> py_error + real" where
  "py_max xs = (case xs of [] \<Rightarrow> Inl ValueError | x # rest \<Rightarrow> Inr (fold max rest x))"

text \<open>Lines 80-84: the loop over the dense grid, appending to \<^verbatim>\<open>phi[name]\<close>.\<close>

fun dense_loop :: "body \<Rightarrow> real list \<Rightarrow> sample list \<Rightarrow> sample list" where
  "dense_loop p [] curve = curve"
| "dense_loop p (S # rest) curve =
     (let phi_value = np_neg (get_phi_np (pM p) (pR p) S);
          curve1 = curve @ [(pS p + S, phi_value)];
          curve2 = (if pS p - S > 0 then curve1 @ [(pS p - S, phi_value)] else curve1)
      in dense_loop p rest curve2)"

text \<open>Lines 85-87: the loop over the shared coarse grid.\<close>

fun coarse_loop :: "body \<Rightarrow> real list \<Rightarrow> sample list \<Rightarrow> sample list" where
  "coarse_loop p [] curve = curve"
| "coarse_loop p (S # rest) curve =
     (let phi_value = np_neg (get_phi_np (pM p) (pR p) \<bar>pS p - S\<bar>)
      in coarse_loop p rest (curve @ [(S, phi_value)]))"

text \<open>Lines 77-79: the dense grid of one body.\<close>

definition S_range_of :: "body \<Rightarrow> py_error + real list" where
  "S_range_of p =
     (let S_step = pR p / 100;
          S_max = pR p * 100
      in arange 0 S_max S_step)"

text \<open>
  Lines 76-87: the curve of one body. Only the grid can raise: the two loops divide
  numpy numbers.
\<close>

definition sample_body :: "real list \<Rightarrow> body \<Rightarrow> py_error + sample list" where
  "sample_body base_S_range p =
     (case S_range_of p of
        Inl e \<Rightarrow> Inl e
      | Inr S_range \<Rightarrow> Inr (coarse_loop p base_S_range (dense_loop p S_range [])))"

text \<open>Lines 75-87: the loop over the bodies, filling the dict \<^verbatim>\<open>phi\<close>.\<close>

fun body_loop :: "real list \<Rightarrow> bodies \<Rightarrow> curves \<Rightarrow> py_error + curves" where
  "body_loop base_S_range [] phi = Inr phi"
| "body_loop base_S_range ((name, p) # rest) phi =
     (case sample_body base_S_range p of
        Inl e \<Rightarrow> Inl e
      | Inr curve \<Rightarrow> body_loop base_S_range rest (AList.update name curve phi))"

text \<open>Lines 89-91.\<close>

definition all_S_values_of :: "curves \<Rightarrow> real list" where
  "all_S_values_of phi = concat (map (\<lambda>val_list. map fst val_list) (map snd phi))"

text \<open>Python's \<^verbatim>\<open>sum\<close>, here of numpy numbers: it starts from 0 and adds from the left.\<close>

fun py_sum :: "np_float list \<Rightarrow> np_float \<Rightarrow> np_float" where
  "py_sum [] acc = acc"
| "py_sum (x # xs) acc = py_sum xs (np_add acc x)"

text \<open>Line 92, the value at one distance: the sum over \<^verbatim>\<open>data.values()\<close>.\<close>

definition total_at :: "bodies \<Rightarrow> real \<Rightarrow> np_float" where
  "total_at data S =
     py_sum (map (\<lambda>p. np_neg (get_phi_np (pM p) (pR p) \<bar>pS p - S\<bar>)) (map snd data))
       (Finite 0)"

text \<open>Line 92, the list comprehension.\<close>

fun all_loop :: "bodies \<Rightarrow> real list \<Rightarrow> sample list" where
  "all_loop data [] = []"
| "all_loop data (S # rest) = (S, total_at data S) # all_loop data rest"

text \<open>
  The local variables of \<^verbatim>\<open>solar_system_gravitational_potential\<close> once line 121 has
  run: the bodies, the grids, the curves before (\<open>body_phi_of\<close>, line 88) and after
  (\<open>phi_of\<close>) the aggregate is stored, and the setting of the Y axis.
\<close>

record locals =
  data_of :: bodies
  max_S_of :: real
  AU_of :: real
  S_bin_of :: real
  base_S_range_of :: "real list"
  body_phi_of :: curves
  all_S_values :: "real list"
  phi_of :: curves
  yaxis_of :: yaxis

text \<open>
  Lines 58-92 and 121, from the dataset that line 57 obtained. The drawing itself
  (lines 118-139 but 121) is not modelled.
\<close>

definition solar_system_gravitational_potential :: "dataset \<Rightarrow> py_error + locals" where
  "solar_system_gravitational_potential all_data =
     (case convert_loop all_data [] of
        Inl e \<Rightarrow> Inl e
      | Inr data0 \<Rightarrow>
     (let data = AList.update ''sun'' \<lparr>pM = M_sun, pS = 0, pR = R_sun\<rparr> data0 in
      case py_max (map (\<lambda>p. pS p) (map snd data)) of
        Inl e \<Rightarrow> Inl e
      | Inr m \<Rightarrow>
     (let max_S = m * 1.2 in
      case map_of data ''earth'' of
        None \<Rightarrow> Inl (KeyError ''earth'')
      | Some hearth \<Rightarrow>
     (let AU = pS hearth;
          S_bin = max_S / 1000 in
      case arange 0 max_S S_bin of
        Inl e \<Rightarrow> Inl e
      | Inr base_S_range \<Rightarrow>
     (case body_loop base_S_range data [] of
        Inl e \<Rightarrow> Inl e
      | Inr phi \<Rightarrow>
     (let S_values = all_S_values_of phi;
          all_curve = all_loop data (sort S_values) in
      case restore_minor_ticks_log_plot n_subticks_default of
        Inl e \<Rightarrow> Inl e
      | Inr ax \<Rightarrow>
          Inr \<lparr>data_of = data, max_S_of = max_S, AU_of = AU, S_bin_of = S_bin,
               base_S_range_of = base_S_range, body_phi_of = phi,
               all_S_values = S_values,
               phi_of = AList.update ''all'' all_curve phi, yaxis_of = ax\<rparr>))))))"

text \<open>Line 57 followed by the rest: the program run in a world.\<close>

definition run ::
  "(string \<Rightarrow> dataset option) \<Rightarrow> (dataset \<Rightarrow> string) \<Rightarrow> world \<Rightarrow> (py_error + locals) \<times> world" where
  "run loads dumps w =
     (case get_solar_system_data loads dumps w of
        (Inl e, w') \<Rightarrow> (Inl e, w')
      | (Inr all_data, w') \<Rightarrow> (solar_system_gravitational_potential all_data, w'))"

subsection \<open>Two small datasets\<close>

text \<open>
  A dataset with the Earth alone, one with a second body whose semimajor axis is
  negative, and one with a second body, at the Sun's place, whose radius is negative.
\<close>

definition earth_planet :: planet where
  "earth_planet =
     [(''mass10_24Kg'', 5.97), (''semimajorAxis10_6Km'', 149.6),
      (''volumetricMeanRadiusKm'', 6371)]"

definition earth_only :: dataset where
  "earth_only = [(''earth'', earth_planet)]"

definition with_probe :: dataset where
  "with_probe =
     [(''earth'', earth_planet),
      (''probe'', [(''mass10_24Kg'', 1), (''semimajorAxis10_6Km'', - 1),
                   (''volumetricMeanRadiusKm'', 1)])]"

definition with_shell :: dataset where
  "with_shell =
     [(''earth'', earth_planet),
      (''shell'', [(''mass10_24Kg'', 1), (''semimajorAxis10_6Km'', 0),
                   (''volumetricMeanRadiusKm'', - 1)])]"

text \<open>A parser that knows the empty dataset only, and a printer, to run the data provider.\<close>

definition toy_loads :: "string \<Rightarrow> dataset option" where
  "toy_loads txt = (if txt = ''{}'' then Some [] else None)"

definition toy_dumps :: "dataset \<Rightarrow> string" where
  "toy_dumps d = ''{}''"

section \<open>Properties\<close>

subsection \<open>The potential\<close>

lemma G_value: "G = 74 / 10 ^ 29"
  by (simp add: G_def power_int_minus)

lemma G_pos: "0 < G"
  by (simp add: G_value)

lemma get_phi_inside:
  "S < R \<Longrightarrow> get_phi M R S =
     (if R = 0 then Inl ZeroDivisionError else Inr (G * M * (S\<^sup>2 - 3 * R\<^sup>2) / (2 * R ^ 3)))"
  by (simp add: get_phi_def truediv_def)

lemma get_phi_outside:
  "\<not> S < R \<Longrightarrow> get_phi M R S =
     (if S = 0 then Inl ZeroDivisionError else Inr (- G * M / S))"
  by (simp add: get_phi_def truediv_def)

lemma get_phi_defined: "0 < R \<Longrightarrow> \<exists>v. get_phi M R S = Inr v"
  by (simp add: get_phi_def truediv_def)

lemma get_phi_nonpos:
  assumes "0 \<le> M" "0 \<le> R" "0 \<le> S" "get_phi M R S = Inr v"
  shows "v \<le> 0"
proof (cases "S < R")
  case True
  then have R: "0 < R" using assms(3) by simp
  have v: "v = G * M * (S\<^sup>2 - 3 * R\<^sup>2) / (2 * R ^ 3)"
    using assms(4) True R by (simp add: get_phi_inside)
  have "S\<^sup>2 \<le> R\<^sup>2" using True assms(3) by (simp add: power_mono)
  then have "S\<^sup>2 - 3 * R\<^sup>2 \<le> 0" by (smt (verit) zero_le_power2)
  moreover have "0 \<le> G * M" using G_pos assms(1) by simp
  ultimately have "G * M * (S\<^sup>2 - 3 * R\<^sup>2) \<le> 0"
    by (simp add: mult_nonneg_nonpos)
  moreover have "0 < 2 * R ^ 3" using R by simp
  ultimately show ?thesis unfolding v by (simp add: divide_nonpos_pos)
next
  case False
  then have S: "S \<noteq> 0" and v: "v = - G * M / S"
    using assms(4) by (auto simp: get_phi_outside split: if_splits)
  have "0 \<le> G * M" using G_pos assms(1) by simp
  then show ?thesis unfolding v using assms(3) S by (simp add: divide_nonneg_pos)
qed

lemma branches_meet:
  "0 < R \<Longrightarrow> G * M * (R\<^sup>2 - 3 * R\<^sup>2) / (2 * R ^ 3) = - G * M / R"
  by (simp add: field_simps power2_eq_square power3_eq_cube)

lemma get_phi_left:
  assumes "0 < R"
  shows "((\<lambda>S. projr (get_phi M R S)) \<longlongrightarrow> - G * M / R) (at_left R)"
proof -
  have ev: "\<forall>\<^sub>F S in at_left R. projr (get_phi M R S) = G * M * (S\<^sup>2 - 3 * R\<^sup>2) / (2 * R ^ 3)"
    unfolding eventually_at_filter using assms
    by (simp add: get_phi_inside)
  have "((\<lambda>S. G * M * (S\<^sup>2 - 3 * R\<^sup>2) / (2 * R ^ 3)) \<longlongrightarrow> G * M * (R\<^sup>2 - 3 * R\<^sup>2) / (2 * R ^ 3)) (at_left R)"
    by (intro tendsto_intros) (use assms in simp_all)
  then have "((\<lambda>S. G * M * (S\<^sup>2 - 3 * R\<^sup>2) / (2 * R ^ 3)) \<longlongrightarrow> - G * M / R) (at_left R)"
    by (simp only: branches_meet [OF assms])
  then show ?thesis
    using ev by (simp add: tendsto_cong)
qed

lemma get_phi_right:
  assumes "0 < R"
  shows "((\<lambda>S. projr (get_phi M R S)) \<longlongrightarrow> - G * M / R) (at_right R)"
proof -
  have ev: "\<forall>\<^sub>F S in at_right R. projr (get_phi M R S) = - G * M / S"
    unfolding eventually_at_filter using assms
    by (auto simp: get_phi_outside intro!: always_eventually)
  have "((\<lambda>S. - G * M / S) \<longlongrightarrow> - G * M / R) (at_right R)"
    by (intro tendsto_intros) (use assms in simp_all)
  then show ?thesis
    using ev by (simp add: tendsto_cong)
qed

lemma get_phi_at_R: "0 < R \<Longrightarrow> get_phi M R R = Inr (- G * M / R)"
  by (simp add: get_phi_outside)

lemma get_phi_isCont:
  assumes "0 < R"
  shows "isCont (\<lambda>S. projr (get_phi M R S)) R"
  unfolding isCont_def
  using filterlim_split_at [OF get_phi_left [OF assms] get_phi_right [OF assms]]
  by (simp add: get_phi_at_R [OF assms])

lemma get_phi_np_eq:
  "get_phi_np M R S = (case get_phi M R S of Inl e \<Rightarrow> NonFinite | Inr v \<Rightarrow> Finite v)"
  by (simp add: get_phi_np_def get_phi_def np_truediv_def truediv_def)

lemma get_phi_np_Finite:
  "get_phi_np M R S = Finite v \<longleftrightarrow> get_phi M R S = Inr v"
  by (simp add: get_phi_np_eq split: sum.splits)

lemma get_phi_np_pos: "0 < R \<Longrightarrow> get_phi_np M R S = Finite (projr (get_phi M R S))"
  using get_phi_defined [of R M S] by (auto simp: get_phi_np_eq)

subsection \<open>Grids and the loops of the sampler\<close>

lemma arange_Inr:
  "step \<noteq> 0 \<Longrightarrow> arange start stop step =
     Inr (map (\<lambda>i. start + real i * step) [0..<nat \<lceil>(stop - start) / step\<rceil>])"
  by (simp add: arange_def truediv_def)

lemma arange_Inl: "arange start stop 0 = Inl ZeroDivisionError"
  by (simp add: arange_def truediv_def)

lemma S_range_of_eq:
  "pR p \<noteq> 0 \<Longrightarrow> S_range_of p = Inr (map (\<lambda>i. real i * (pR p / 100)) [0..<10000])"
  by (simp add: S_range_of_def arange_Inr)

lemma S_range_of_zero: "pR p = 0 \<Longrightarrow> S_range_of p = Inl ZeroDivisionError"
  by (simp add: S_range_of_def arange_Inl)

lemma base_S_range_eq:
  "m \<noteq> 0 \<Longrightarrow> arange 0 m (m / 1000) = Inr (map (\<lambda>i. real i * (m / 1000)) [0..<1000])"
  by (simp add: arange_Inr)

lemma dense_loop_set:
  "(d, v) \<in> set (dense_loop p Ss curve) \<longleftrightarrow>
     (d, v) \<in> set curve \<or>
     (\<exists>S\<in>set Ss. v = np_neg (get_phi_np (pM p) (pR p) S) \<and>
        (d = pS p + S \<or> (d = pS p - S \<and> pS p - S > 0)))"
proof (induction Ss arbitrary: curve)
  case Nil
  then show ?case by simp
next
  case (Cons S Ss)
  show ?case
    by (simp add: Let_def Cons.IH) blast
qed

lemma coarse_loop_set:
  "(d, v) \<in> set (coarse_loop p Ss curve) \<longleftrightarrow>
     (d, v) \<in> set curve \<or>
     (d \<in> set Ss \<and> v = np_neg (get_phi_np (pM p) (pR p) \<bar>pS p - d\<bar>))"
proof (induction Ss arbitrary: curve)
  case Nil
  then show ?case by simp
next
  case (Cons S Ss)
  show ?case
    by (simp add: Let_def Cons.IH) blast
qed

subsection \<open>One body, all bodies, the aggregate\<close>

lemma sample_body_Inr:
  assumes "sample_body base_S_range p = Inr curve"
  shows "pR p \<noteq> 0 \<and>
     (\<forall>d v. (d, v) \<in> set curve \<longleftrightarrow>
        (\<exists>i<10000. v = np_neg (get_phi_np (pM p) (pR p) (real i * (pR p / 100))) \<and>
           (d = pS p + real i * (pR p / 100) \<or>
            (d = pS p - real i * (pR p / 100) \<and> pS p - real i * (pR p / 100) > 0))) \<or>
        (d \<in> set base_S_range \<and> v = np_neg (get_phi_np (pM p) (pR p) \<bar>pS p - d\<bar>)))"
proof -
  from assms obtain S_range where
    grid: "S_range_of p = Inr S_range" and
    curve: "curve = coarse_loop p base_S_range (dense_loop p S_range [])"
    by (auto simp: sample_body_def split: sum.splits)
  have R0: "pR p \<noteq> 0"
    using grid by (auto simp: S_range_of_zero)
  have S_range: "S_range = map (\<lambda>i. real i * (pR p / 100)) [0..<10000]"
    using grid S_range_of_eq [OF R0] by simp
  have mem: "(\<exists>S\<in>set S_range. Q S) \<longleftrightarrow> (\<exists>i<10000. Q (real i * (pR p / 100)))" for Q
    unfolding S_range by auto
  show ?thesis
  proof (intro conjI allI)
    show "pR p \<noteq> 0" by (rule R0)
  next
    fix d v
    have "(d, v) \<in> set curve \<longleftrightarrow>
        (\<exists>S\<in>set S_range. v = np_neg (get_phi_np (pM p) (pR p) S) \<and>
           (d = pS p + S \<or> (d = pS p - S \<and> pS p - S > 0))) \<or>
        (d \<in> set base_S_range \<and> v = np_neg (get_phi_np (pM p) (pR p) \<bar>pS p - d\<bar>))"
      by (simp add: curve coarse_loop_set dense_loop_set)
    also have "(\<exists>S\<in>set S_range. v = np_neg (get_phi_np (pM p) (pR p) S) \<and>
           (d = pS p + S \<or> (d = pS p - S \<and> pS p - S > 0))) \<longleftrightarrow>
        (\<exists>i<10000. v = np_neg (get_phi_np (pM p) (pR p) (real i * (pR p / 100))) \<and>
           (d = pS p + real i * (pR p / 100) \<or>
            (d = pS p - real i * (pR p / 100) \<and> pS p - real i * (pR p / 100) > 0)))"
      by (rule mem)
    finally show "((d, v) \<in> set curve) =
       ((\<exists>i<10000. v = np_neg (get_phi_np (pM p) (pR p) (real i * (pR p / 100))) \<and>
           (d = pS p + real i * (pR p / 100) \<or>
            (d = pS p - real i * (pR p / 100) \<and> pS p - real i * (pR p / 100) > 0))) \<or>
        (d \<in> set base_S_range \<and> v = np_neg (get_phi_np (pM p) (pR p) \<bar>pS p - d\<bar>)))" .
  qed
qed

lemma sample_body_defined:
  "pR p \<noteq> 0 \<Longrightarrow> \<exists>curve. sample_body base_S_range p = Inr curve"
  by (simp add: sample_body_def S_range_of_eq)

lemma sample_body_zero: "pR p = 0 \<Longrightarrow> sample_body base_S_range p = Inl ZeroDivisionError"
  by (simp add: sample_body_def S_range_of_zero)

lemma update_fresh:
  "k \<notin> fst ` set al \<Longrightarrow> AList.update k v al = al @ [(k, v)]"
  by (induction al) auto

lemma body_loop_Inr:
  "body_loop base_S_range data phi = Inr out \<Longrightarrow>
   distinct (map fst data) \<Longrightarrow> fst ` set data \<inter> fst ` set phi = {} \<Longrightarrow>
     (\<forall>(name, p)\<in>set data. \<exists>curve. sample_body base_S_range p = Inr curve) \<and>
     out = phi @ map (\<lambda>(name, p). (name, projr (sample_body base_S_range p))) data"
proof (induction data arbitrary: phi)
  case Nil
  then show ?case by simp
next
  case (Cons np data)
  obtain name p where np: "np = (name, p)" by (cases np)
  from Cons.prems(1) obtain curve where
    curve: "sample_body base_S_range p = Inr curve" and
    rest: "body_loop base_S_range data (AList.update name curve phi) = Inr out"
    by (auto simp: np split: sum.splits)
  have fresh: "name \<notin> fst ` set phi"
    using Cons.prems(3) by (auto simp: np)
  have upd: "AList.update name curve phi = phi @ [(name, curve)]"
    using fresh by (rule update_fresh)
  have d: "distinct (map fst data)" and n: "name \<notin> fst ` set data"
    using Cons.prems(2) by (auto simp: np)
  have disj: "fst ` set data \<inter> fst ` set (AList.update name curve phi) = {}"
    using Cons.prems(3) n by (auto simp: upd np)
  note IH = Cons.IH [OF rest d disj]
  show ?case
    using IH curve by (simp add: np upd)
qed

lemma body_loop_defined:
  "\<forall>(name, p)\<in>set data. pR p \<noteq> 0 \<Longrightarrow> \<exists>out. body_loop base_S_range data phi = Inr out"
proof (induction data arbitrary: phi)
  case Nil
  then show ?case by simp
next
  case (Cons np data)
  obtain name p where np: "np = (name, p)" by (cases np)
  have "pR p \<noteq> 0" using Cons.prems by (simp add: np)
  then obtain curve where "sample_body base_S_range p = Inr curve"
    using sample_body_defined by blast
  then show ?case
    using Cons.IH [of "AList.update name curve phi"] Cons.prems by (simp add: np)
qed

lemma py_sum_Finite: "py_sum (map Finite vs) (Finite a) = Finite (a + sum_list vs)"
  by (induction vs arbitrary: a) (simp_all add: add.assoc)

lemma py_sum_NonFinite_acc: "py_sum xs NonFinite = NonFinite"
  by (induction xs) simp_all

lemma py_sum_NonFinite: "NonFinite \<in> set xs \<Longrightarrow> py_sum xs acc = NonFinite"
proof (induction xs arbitrary: acc)
  case Nil
  then show ?case by simp
next
  case (Cons x xs)
  show ?case
  proof (cases "x = NonFinite")
    case True
    have "np_add acc NonFinite = NonFinite" by (cases acc) simp_all
    then show ?thesis by (simp add: True py_sum_NonFinite_acc)
  next
    case False
    with Cons.prems have "NonFinite \<in> set xs" by auto
    then show ?thesis by (simp add: Cons.IH)
  qed
qed

lemma total_at_Finite:
  assumes "\<forall>p\<in>set (map snd data). \<exists>u. get_phi (pM p) (pR p) \<bar>pS p - S\<bar> = Inr u"
  shows "total_at data S =
     Finite (\<Sum>p\<leftarrow>map snd data. - projr (get_phi (pM p) (pR p) \<bar>pS p - S\<bar>))"
proof -
  have "map (\<lambda>p. np_neg (get_phi_np (pM p) (pR p) \<bar>pS p - S\<bar>)) (map snd data) =
      map Finite (map (\<lambda>p. - projr (get_phi (pM p) (pR p) \<bar>pS p - S\<bar>)) (map snd data))"
    unfolding map_map comp_def
  proof (rule map_cong [OF refl])
    fix x
    assume "x \<in> set data"
    then have "snd x \<in> set (map snd data)" by simp
    with assms obtain u where "get_phi (pM (snd x)) (pR (snd x)) \<bar>pS (snd x) - S\<bar> = Inr u"
      by blast
    then show "np_neg (get_phi_np (pM (snd x)) (pR (snd x)) \<bar>pS (snd x) - S\<bar>) =
        Finite (- projr (get_phi (pM (snd x)) (pR (snd x)) \<bar>pS (snd x) - S\<bar>))"
      by (simp add: get_phi_np_eq)
  qed
  then show ?thesis
    by (simp only: total_at_def py_sum_Finite add_0)
qed

lemma total_at_NonFinite:
  assumes "p \<in> set (map snd data)" and "get_phi (pM p) (pR p) \<bar>pS p - S\<bar> = Inl e"
  shows "total_at data S = NonFinite"
proof -
  have "np_neg (get_phi_np (pM p) (pR p) \<bar>pS p - S\<bar>) = NonFinite"
    using assms(2) by (simp add: get_phi_np_eq)
  then have "NonFinite \<in> set (map (\<lambda>p. np_neg (get_phi_np (pM p) (pR p) \<bar>pS p - S\<bar>)) (map snd data))"
    using assms(1) by (metis (mono_tags, lifting) image_eqI list.set_map)
  then show ?thesis
    unfolding total_at_def by (rule py_sum_NonFinite)
qed

lemma all_loop_eq: "all_loop data Ss = map (\<lambda>S. (S, total_at data S)) Ss"
  by (induction Ss) simp_all

subsection \<open>The whole function\<close>

lemma convert_loop_distinct:
  "convert_loop ds data = Inr out \<Longrightarrow> distinct (map fst data) \<Longrightarrow> distinct (map fst out)"
  by (induction ds data rule: convert_loop.induct)
     (auto split: sum.splits simp: distinct_update)

lemma py_max_Inr: "py_max xs = Inr m \<Longrightarrow> xs \<noteq> [] \<and> m = Max (set xs)"
  by (cases xs) (auto simp: py_max_def Max.set_eq_fold [symmetric])

lemma linspace_default: "linspace 0 1 11 = Inr [0, 1/10, 2/10, 3/10, 4/10, 5/10, 6/10, 7/10, 8/10, 9/10, 1]"
  by (simp add: linspace_def Let_def upt_rec)

lemma restore_default:
  "restore_minor_ticks_log_plot n_subticks_default =
     Inr \<lparr>major_locator = \<lparr>base = 10, subs = [1], numticks = 1000\<rparr>,
          minor_locator = \<lparr>base = 10,
             subs = [1/10, 2/10, 3/10, 4/10, 5/10, 6/10, 7/10, 8/10, 9/10], numticks = 1000\<rparr>,
          minor_formatter = NullFormatter\<rparr>"
  by (simp add: restore_minor_ticks_log_plot_def n_subticks_default_def linspace_default
      slice_1_m1_def)

lemma ssgp_Inr:
  assumes "solar_system_gravitational_potential all_data = Inr res"
  obtains data0 hearth where
    "convert_loop all_data [] = Inr data0"
    "data_of res = AList.update ''sun'' \<lparr>pM = M_sun, pS = 0, pR = R_sun\<rparr> data0"
    "max_S_of res = Max (set (map (\<lambda>p. pS p) (map snd (data_of res)))) * 1.2"
    "map_of (data_of res) ''earth'' = Some hearth"
    "AU_of res = pS hearth"
    "S_bin_of res = max_S_of res / 1000"
    "arange 0 (max_S_of res) (S_bin_of res) = Inr (base_S_range_of res)"
    "body_loop (base_S_range_of res) (data_of res) [] = Inr (body_phi_of res)"
    "all_S_values res = all_S_values_of (body_phi_of res)"
    "phi_of res = AList.update ''all''
       (all_loop (data_of res) (sort (all_S_values res))) (body_phi_of res)"
    "restore_minor_ticks_log_plot n_subticks_default = Inr (yaxis_of res)"
proof -
  from assms obtain data0 where c: "convert_loop all_data [] = Inr data0"
    by (auto simp: solar_system_gravitational_potential_def split: sum.splits)
  define data where "data = AList.update ''sun'' \<lparr>pM = M_sun, pS = 0, pR = R_sun\<rparr> data0"
  from assms c obtain m where m: "py_max (map (\<lambda>p. pS p) (map snd data)) = Inr m"
    by (auto simp: solar_system_gravitational_potential_def Let_def data_def split: sum.splits)
  from assms c m obtain hearth where h: "map_of data ''earth'' = Some hearth"
    by (auto simp: solar_system_gravitational_potential_def Let_def data_def
        split: sum.splits option.splits)
  from assms c m h obtain base where b: "arange 0 (m * 1.2) (m * 1.2 / 1000) = Inr base"
    by (auto simp: solar_system_gravitational_potential_def Let_def data_def
        split: sum.splits option.splits)
  from assms c m h b obtain phi where p: "body_loop base data [] = Inr phi"
    by (auto simp: solar_system_gravitational_potential_def Let_def data_def
        split: sum.splits option.splits)
  have res: "res = \<lparr>data_of = data, max_S_of = m * 1.2, AU_of = pS hearth,
      S_bin_of = m * 1.2 / 1000, base_S_range_of = base, body_phi_of = phi,
      all_S_values = all_S_values_of phi,
      phi_of = AList.update ''all'' (all_loop data (sort (all_S_values_of phi))) phi,
      yaxis_of = projr (restore_minor_ticks_log_plot n_subticks_default)\<rparr>"
    using assms c m h b p
    by (simp add: solar_system_gravitational_potential_def Let_def data_def restore_default)
  have mx: "m = Max (set (map (\<lambda>p. pS p) (map snd data)))"
    using py_max_Inr [OF m] by simp
  show ?thesis
    by (rule that [of data0 hearth])
       (use c m h b p mx in \<open>simp_all add: res data_def restore_default\<close>)
qed

lemma set_update_subset: "set (AList.update k v al) \<subseteq> insert (k, v) (set al)"
  by (induction al) auto

lemma update_mem: "(k, v) \<in> set (AList.update k v al)"
  by (induction al) auto

lemma sample_body_shape:
  assumes "sample_body base_S_range p = Inr curve" and "(d, v) \<in> set curve"
  shows "(\<exists>i<10000. d = pS p + real i * (pR p / 100)) \<or>
    (\<exists>i<10000. d = pS p - real i * (pR p / 100) \<and> 0 < d) \<or>
    d \<in> set base_S_range"
  using sample_body_Inr [OF assms(1)] assms(2) by blast

lemma sample_body_values:
  assumes "sample_body base_S_range p = Inr curve" and "(d, v) \<in> set curve" and "0 < pR p"
  shows "\<exists>u. get_phi (pM p) (pR p) \<bar>pS p - d\<bar> = Inr u \<and> v = Finite (- u)"
proof -
  note B = sample_body_Inr [OF assms(1)]
  from B assms(2) consider
    (dense) i where "i < 10000"
      "v = np_neg (get_phi_np (pM p) (pR p) (real i * (pR p / 100)))"
      "d = pS p + real i * (pR p / 100) \<or> d = pS p - real i * (pR p / 100)"
    | (coarse) "v = np_neg (get_phi_np (pM p) (pR p) \<bar>pS p - d\<bar>)"
    by blast
  then have v: "v = np_neg (get_phi_np (pM p) (pR p) \<bar>pS p - d\<bar>)"
  proof cases
    case dense
    have "0 \<le> real i * (pR p / 100)" using assms(3) by simp
    then have eq: "\<bar>pS p - d\<bar> = real i * (pR p / 100)"
      using dense(3) by auto
    show ?thesis unfolding eq by (rule dense(2))
  next
    case coarse
    then show ?thesis .
  qed
  from get_phi_defined [OF assms(3)] obtain u where
    u: "get_phi (pM p) (pR p) \<bar>pS p - d\<bar> = Inr u"
    by blast
  then have "v = Finite (- u)"
    by (simp add: v get_phi_np_eq)
  with u show ?thesis by blast
qed

lemma sample_body_mirror:
  assumes "sample_body base_S_range p = Inr curve" and "i < 10000"
  shows "(pS p + real i * (pR p / 100),
          np_neg (get_phi_np (pM p) (pR p) (real i * (pR p / 100)))) \<in> set curve \<and>
     (pS p - real i * (pR p / 100) > 0 \<longrightarrow>
        (pS p - real i * (pR p / 100),
         np_neg (get_phi_np (pM p) (pR p) (real i * (pR p / 100)))) \<in> set curve)"
  using sample_body_Inr [OF assms(1)] assms(2) by blast

lemma sample_body_coarse:
  assumes "sample_body base_S_range p = Inr curve" and "S \<in> set base_S_range"
  shows "(S, np_neg (get_phi_np (pM p) (pR p) \<bar>pS p - S\<bar>)) \<in> set curve"
  using sample_body_Inr [OF assms(1)] assms(2) by blast

lemma sample_body_value_nonneg:
  assumes "sample_body base_S_range p = Inr curve" and "(d, v) \<in> set curve"
    and "0 \<le> pM p" and "0 < pR p"
  shows "\<exists>x. v = Finite x \<and> 0 \<le> x"
proof -
  from sample_body_values [OF assms(1,2,4)] obtain u where
    u: "get_phi (pM p) (pR p) \<bar>pS p - d\<bar> = Inr u" and v: "v = Finite (- u)"
    by blast
  have "u \<le> 0"
    by (rule get_phi_nonpos [OF assms(3) _ _ u]) (use assms(4) in simp_all)
  with v show ?thesis by simp
qed

lemma ssgp_sun:
  assumes "solar_system_gravitational_potential all_data = Inr res"
  shows "(''sun'', \<lparr>pM = M_sun, pS = 0, pR = R_sun\<rparr>) \<in> set (data_of res)"
  using assms by (elim ssgp_Inr) (simp add: update_mem)

lemma ssgp_distinct:
  assumes "solar_system_gravitational_potential all_data = Inr res"
  shows "distinct (map fst (data_of res))"
  using assms
  by (elim ssgp_Inr) (simp add: distinct_update convert_loop_distinct [where data = "[]"])

lemma ssgp_body_phi:
  assumes "solar_system_gravitational_potential all_data = Inr res"
  shows "(\<forall>(name, p)\<in>set (data_of res). \<exists>curve. sample_body (base_S_range_of res) p = Inr curve) \<and>
    body_phi_of res =
      map (\<lambda>(name, p). (name, projr (sample_body (base_S_range_of res) p))) (data_of res)"
proof -
  from assms have "body_loop (base_S_range_of res) (data_of res) [] = Inr (body_phi_of res)"
    by (elim ssgp_Inr)
  from body_loop_Inr [OF this ssgp_distinct [OF assms]] show ?thesis
    by simp
qed

lemma ssgp_radius:
  assumes "solar_system_gravitational_potential all_data = Inr res"
    and "(name, p) \<in> set (data_of res)"
  shows "pR p \<noteq> 0"
proof -
  from ssgp_body_phi [OF assms(1)] assms(2)
  obtain curve where "sample_body (base_S_range_of res) p = Inr curve"
    by blast
  then show ?thesis using sample_body_Inr by blast
qed

lemma ssgp_body_curve:
  assumes "solar_system_gravitational_potential all_data = Inr res"
    and "(name, curve) \<in> set (body_phi_of res)"
  shows "\<exists>p. (name, p) \<in> set (data_of res) \<and> sample_body (base_S_range_of res) p = Inr curve"
proof -
  note B = ssgp_body_phi [OF assms(1)]
  from assms(2) B obtain p where p: "(name, p) \<in> set (data_of res)"
    and c: "curve = projr (sample_body (base_S_range_of res) p)"
    by auto
  from B p obtain c' where "sample_body (base_S_range_of res) p = Inr c'"
    by blast
  with p c show ?thesis by auto
qed

lemma ssgp_curve_of_body:
  assumes "solar_system_gravitational_potential all_data = Inr res"
    and "(name, p) \<in> set (data_of res)"
  shows "\<exists>curve. map_of (body_phi_of res) name = Some curve \<and>
    sample_body (base_S_range_of res) p = Inr curve"
proof -
  note B = ssgp_body_phi [OF assms(1)]
  from B assms(2) obtain curve where c: "sample_body (base_S_range_of res) p = Inr curve"
    by blast
  have d: "distinct (map fst (body_phi_of res))"
    using ssgp_distinct [OF assms(1)] B by (simp add: comp_def case_prod_beta)
  have "(name, curve) \<in> set (body_phi_of res)"
    using B assms(2) c by (auto simp: image_iff intro!: bexI [of _ "(name, p)"])
  with d have "map_of (body_phi_of res) name = Some curve"
    by simp
  with c show ?thesis by blast
qed

lemma ssgp_grid:
  assumes "solar_system_gravitational_potential all_data = Inr res"
  shows "0 < max_S_of res \<and>
    base_S_range_of res = map (\<lambda>k. real k * (max_S_of res / 1000)) [0..<1000]"
proof -
  from assms have a: "arange 0 (max_S_of res) (max_S_of res / 1000) = Inr (base_S_range_of res)"
    by (elim ssgp_Inr) (simp only:)
  from assms have m: "max_S_of res = Max (set (map (\<lambda>p. pS p) (map snd (data_of res)))) * 1.2"
    by (elim ssgp_Inr)
  have "max_S_of res / 1000 \<noteq> 0"
    using a arange_Inl [of 0 "max_S_of res"] by auto
  then have n0: "max_S_of res \<noteq> 0" by simp
  have "0 \<in> set (map (\<lambda>p. pS p) (map snd (data_of res)))"
    using ssgp_sun [OF assms] by (force simp: image_iff)
  then have "0 \<le> Max (set (map (\<lambda>p. pS p) (map snd (data_of res))))"
    by (intro Max_ge) simp_all
  then have "0 \<le> max_S_of res" by (simp add: m)
  with n0 have "0 < max_S_of res" by simp
  moreover have "base_S_range_of res = map (\<lambda>k. real k * (max_S_of res / 1000)) [0..<1000]"
    using a base_S_range_eq [OF n0] by simp
  ultimately show ?thesis by simp
qed

lemma ssgp_base_bounds:
  assumes "solar_system_gravitational_potential all_data = Inr res"
    and "x \<in> set (base_S_range_of res)"
  shows "0 \<le> x \<and> x < max_S_of res"
proof -
  note Gr = ssgp_grid [OF assms(1)]
  from assms(2) Gr obtain k where k: "k < 1000" and x: "x = real k * (max_S_of res / 1000)"
    by auto
  have "real k < 1000" using k by simp
  then have "real k * (max_S_of res / 1000) < 1000 * (max_S_of res / 1000)"
    using Gr by (intro mult_strict_right_mono) simp_all
  then show ?thesis using Gr by (simp add: x)
qed

lemma ssgp_all_curve:
  assumes "solar_system_gravitational_potential all_data = Inr res"
  shows "\<exists>all_curve. map_of (phi_of res) ''all'' = Some all_curve \<and>
    phi_of res = AList.update ''all'' all_curve (body_phi_of res) \<and>
    map fst all_curve = sort (all_S_values_of (body_phi_of res)) \<and>
    (\<forall>(d, v)\<in>set all_curve. v = total_at (data_of res) d)"
proof -
  from assms have
    p: "phi_of res = AList.update ''all''
          (all_loop (data_of res) (sort (all_S_values res))) (body_phi_of res)"
    by (elim ssgp_Inr)
  from assms have s: "all_S_values res = all_S_values_of (body_phi_of res)"
    by (elim ssgp_Inr)
  show ?thesis
    by (intro exI [of _ "all_loop (data_of res) (sort (all_S_values res))"])
       (auto simp: p s update_conv' all_loop_eq comp_def)
qed

lemma all_S_values_mem:
  "d \<in> set (all_S_values_of phi) \<longleftrightarrow> (\<exists>name curve v. (name, curve) \<in> set phi \<and> (d, v) \<in> set curve)"
  by (force simp: all_S_values_of_def)

lemma ssgp_data:
  assumes "solar_system_gravitational_potential all_data = Inr res"
    and "convert_loop all_data [] = Inr data0"
  shows "data_of res = AList.update ''sun'' \<lparr>pM = M_sun, pS = 0, pR = R_sun\<rparr> data0"
proof -
  from assms(1) obtain data1 where
    "convert_loop all_data [] = Inr data1"
    "data_of res = AList.update ''sun'' \<lparr>pM = M_sun, pS = 0, pR = R_sun\<rparr> data1"
    by (elim ssgp_Inr)
  with assms(2) show ?thesis by simp
qed

subsection \<open>The three datasets, evaluated\<close>

lemma convert_earth_only:
  "convert_loop earth_only [] =
     Inr [(''earth'', \<lparr>pM = 5.97 * 10 ^ 24, pS = 149.6 * 10 ^ 9, pR = 6371 * 10 ^ 3\<rparr>)]"
  by (simp add: earth_only_def earth_planet_def to_body_def)

lemma convert_with_probe:
  "convert_loop with_probe [] =
     Inr [(''earth'', \<lparr>pM = 5.97 * 10 ^ 24, pS = 149.6 * 10 ^ 9, pR = 6371 * 10 ^ 3\<rparr>),
          (''probe'', \<lparr>pM = 1 * 10 ^ 24, pS = (- 1) * 10 ^ 9, pR = 1 * 10 ^ 3\<rparr>)]"
  by (simp add: with_probe_def earth_planet_def to_body_def)

lemma convert_with_shell:
  "convert_loop with_shell [] =
     Inr [(''earth'', \<lparr>pM = 5.97 * 10 ^ 24, pS = 149.6 * 10 ^ 9, pR = 6371 * 10 ^ 3\<rparr>),
          (''shell'', \<lparr>pM = 1 * 10 ^ 24, pS = 0 * 10 ^ 9, pR = (- 1) * 10 ^ 3\<rparr>)]"
  by (simp add: with_shell_def earth_planet_def to_body_def)

lemma ssgp_defined:
  assumes c: "convert_loop all_data [] = Inr data0"
    and R: "\<forall>(name, p)\<in>set (AList.update ''sun'' \<lparr>pM = M_sun, pS = 0, pR = R_sun\<rparr> data0). pR p \<noteq> 0"
    and h: "map_of (AList.update ''sun'' \<lparr>pM = M_sun, pS = 0, pR = R_sun\<rparr> data0) ''earth'' = Some hearth"
    and m: "py_max (map (\<lambda>p. pS p)
         (map snd (AList.update ''sun'' \<lparr>pM = M_sun, pS = 0, pR = R_sun\<rparr> data0))) = Inr m"
    and m0: "m \<noteq> 0"
  shows "\<exists>res. solar_system_gravitational_potential all_data = Inr res"
proof -
  let ?data = "AList.update ''sun'' \<lparr>pM = M_sun, pS = 0, pR = R_sun\<rparr> data0"
  have b: "arange 0 (m * 1.2) (m * 1.2 / 1000) =
      Inr (map (\<lambda>i. real i * (m * 1.2 / 1000)) [0..<1000])"
    using m0 by (intro base_S_range_eq) simp
  obtain phi where p:
    "body_loop (map (\<lambda>i. real i * (m * 1.2 / 1000)) [0..<1000]) ?data [] = Inr phi"
    using body_loop_defined [OF R] by blast
  show ?thesis
    using c h m b p
    by (simp add: solar_system_gravitational_potential_def Let_def restore_default)
qed

lemma earth_only_defined: "\<exists>res. solar_system_gravitational_potential earth_only = Inr res"
  by (rule ssgp_defined [OF convert_earth_only, where m = "149.6 * 10 ^ 9"])
     (simp_all add: M_sun_def R_sun_def py_max_def)

lemma with_probe_defined: "\<exists>res. solar_system_gravitational_potential with_probe = Inr res"
  by (rule ssgp_defined [OF convert_with_probe, where m = "149.6 * 10 ^ 9"])
     (simp_all add: M_sun_def R_sun_def py_max_def)

lemma with_shell_defined: "\<exists>res. solar_system_gravitational_potential with_shell = Inr res"
  by (rule ssgp_defined [OF convert_with_shell, where m = "149.6 * 10 ^ 9"])
     (simp_all add: M_sun_def R_sun_def py_max_def)

lemma projr_Inr: "\<exists>res. x = Inr res \<Longrightarrow> x = Inr (projr x)"
  by auto

lemma earth_only_res:
  "solar_system_gravitational_potential earth_only =
     Inr (projr (solar_system_gravitational_potential earth_only))"
  by (rule projr_Inr [OF earth_only_defined])

lemma with_probe_res:
  "solar_system_gravitational_potential with_probe =
     Inr (projr (solar_system_gravitational_potential with_probe))"
  by (rule projr_Inr [OF with_probe_defined])

lemma with_shell_res:
  "solar_system_gravitational_potential with_shell =
     Inr (projr (solar_system_gravitational_potential with_shell))"
  by (rule projr_Inr [OF with_shell_defined])

lemma earth_only_data:
  "data_of (projr (solar_system_gravitational_potential earth_only)) =
     [(''earth'', \<lparr>pM = 5.97 * 10 ^ 24, pS = 149.6 * 10 ^ 9, pR = 6371 * 10 ^ 3\<rparr>),
      (''sun'', \<lparr>pM = M_sun, pS = 0, pR = R_sun\<rparr>)]"
  by (simp add: ssgp_data [OF earth_only_res convert_earth_only])

lemma with_probe_data:
  "data_of (projr (solar_system_gravitational_potential with_probe)) =
     [(''earth'', \<lparr>pM = 5.97 * 10 ^ 24, pS = 149.6 * 10 ^ 9, pR = 6371 * 10 ^ 3\<rparr>),
      (''probe'', \<lparr>pM = 1 * 10 ^ 24, pS = (- 1) * 10 ^ 9, pR = 1 * 10 ^ 3\<rparr>),
      (''sun'', \<lparr>pM = M_sun, pS = 0, pR = R_sun\<rparr>)]"
  by (simp add: ssgp_data [OF with_probe_res convert_with_probe])

lemma with_shell_data:
  "data_of (projr (solar_system_gravitational_potential with_shell)) =
     [(''earth'', \<lparr>pM = 5.97 * 10 ^ 24, pS = 149.6 * 10 ^ 9, pR = 6371 * 10 ^ 3\<rparr>),
      (''shell'', \<lparr>pM = 1 * 10 ^ 24, pS = 0 * 10 ^ 9, pR = (- 1) * 10 ^ 3\<rparr>),
      (''sun'', \<lparr>pM = M_sun, pS = 0, pR = R_sun\<rparr>)]"
  by (simp add: ssgp_data [OF with_shell_res convert_with_shell])

section \<open>The claims\<close>

text \<open>
  C1. When the function returns, the dict \<^verbatim>\<open>phi\<close> has the aggregate curve under the key
  \<^verbatim>\<open>'all'\<close>. In each of its samples \<open>(d, v)\<close>, \<open>v\<close> is Python's sum over the bodies
  \<open>p\<close> (in the order of \<^verbatim>\<open>data.values()\<close>) of \<open>- get_phi p.M p.R \<bar>p.S - d\<bar>\<close>; where
  the potential of every body has a value at \<open>\<bar>p.S - d\<bar>\<close>, that is the real number which
  is the sum of the \<open>- get_phi p.M p.R \<bar>p.S - d\<bar>\<close>. Its distances are the distances of
  all the samples of all the bodies' curves, sorted: the list is nondecreasing and, as
  a multiset, it is the sum of the multisets of the distances of the bodies' curves, so
  that no duplicate is dropped.
\<close>

theorem all_curve_is_sum_on_sorted_distances:
  assumes "solar_system_gravitational_potential all_data = Inr res"
  shows "\<exists>all_curve. map_of (phi_of res) ''all'' = Some all_curve \<and>
    (\<forall>(d, v)\<in>set all_curve.
       v = py_sum (map (\<lambda>p. np_neg (get_phi_np (pM p) (pR p) \<bar>pS p - d\<bar>))
                    (map snd (data_of res))) (Finite 0) \<and>
       ((\<forall>p\<in>set (map snd (data_of res)). \<exists>u. get_phi (pM p) (pR p) \<bar>pS p - d\<bar> = Inr u) \<longrightarrow>
          v = Finite (\<Sum>p\<leftarrow>map snd (data_of res).
                        - projr (get_phi (pM p) (pR p) \<bar>pS p - d\<bar>)))) \<and>
    map fst all_curve = sort (concat (map (\<lambda>(name, curve). map fst curve) (body_phi_of res))) \<and>
    sorted (map fst all_curve) \<and>
    mset (map fst all_curve) =
      (\<Sum>(name, curve)\<in>#mset (body_phi_of res). mset (map fst curve))"
proof -
  from ssgp_all_curve [OF assms] obtain all_curve where
    m: "map_of (phi_of res) ''all'' = Some all_curve" and
    f: "map fst all_curve = sort (all_S_values_of (body_phi_of res))" and
    t: "\<forall>(d, v)\<in>set all_curve. v = total_at (data_of res) d"
    by blast
  have c: "all_S_values_of phi = concat (map (\<lambda>(name, curve). map fst curve) phi)" for phi
    by (simp add: all_S_values_of_def case_prod_unfold comp_def)
  have ms: "mset (concat (map (\<lambda>(name, curve). map fst curve) phi)) =
      (\<Sum>(name, curve)\<in>#mset phi. mset (map fst curve))" for phi :: curves
    by (induction phi) (auto simp: case_prod_beta)
  have v: "\<forall>(d, v)\<in>set all_curve.
       v = py_sum (map (\<lambda>p. np_neg (get_phi_np (pM p) (pR p) \<bar>pS p - d\<bar>))
                    (map snd (data_of res))) (Finite 0) \<and>
       ((\<forall>p\<in>set (map snd (data_of res)). \<exists>u. get_phi (pM p) (pR p) \<bar>pS p - d\<bar> = Inr u) \<longrightarrow>
          v = Finite (\<Sum>p\<leftarrow>map snd (data_of res).
                        - projr (get_phi (pM p) (pR p) \<bar>pS p - d\<bar>)))"
  proof (intro ballI, clarify)
    fix d v
    assume "(d, v) \<in> set all_curve"
    with t have tv: "v = total_at (data_of res) d" by blast
    show "v = py_sum (map (\<lambda>p. np_neg (get_phi_np (pM p) (pR p) \<bar>pS p - d\<bar>))
                    (map snd (data_of res))) (Finite 0) \<and>
       ((\<forall>p\<in>set (map snd (data_of res)). \<exists>u. get_phi (pM p) (pR p) \<bar>pS p - d\<bar> = Inr u) \<longrightarrow>
          v = Finite (\<Sum>p\<leftarrow>map snd (data_of res).
                        - projr (get_phi (pM p) (pR p) \<bar>pS p - d\<bar>)))"
    proof (intro conjI impI)
      show "v = py_sum (map (\<lambda>p. np_neg (get_phi_np (pM p) (pR p) \<bar>pS p - d\<bar>))
                    (map snd (data_of res))) (Finite 0)"
        by (simp only: tv total_at_def)
    next
      assume "\<forall>p\<in>set (map snd (data_of res)). \<exists>u. get_phi (pM p) (pR p) \<bar>pS p - d\<bar> = Inr u"
      from total_at_Finite [OF this]
      show "v = Finite (\<Sum>p\<leftarrow>map snd (data_of res).
                        - projr (get_phi (pM p) (pR p) \<bar>pS p - d\<bar>))"
        by (simp only: tv)
    qed
  qed
  have s: "map fst all_curve = sort (concat (map (\<lambda>(name, curve). map fst curve) (body_phi_of res)))"
    using f by (simp only: c)
  have "sorted (map fst all_curve)"
    by (simp only: s sorted_sort)
  moreover have "mset (map fst all_curve) =
      (\<Sum>(name, curve)\<in>#mset (body_phi_of res). mset (map fst curve))"
    by (simp only: s mset_sort ms)
  ultimately show ?thesis
    using m v s by blast
qed

theorem all_curve_is_sum_on_sorted_distances_witness:
  "solar_system_gravitational_potential earth_only =
     Inr (projr (solar_system_gravitational_potential earth_only)) \<and>
   (\<exists>all_curve.
      map_of (phi_of (projr (solar_system_gravitational_potential earth_only))) ''all'' =
        Some all_curve \<and>
      sorted (map fst all_curve) \<and>
      mset (map fst all_curve) =
        (\<Sum>(name, curve)\<in>#mset (body_phi_of (projr (solar_system_gravitational_potential earth_only))).
           mset (map fst curve)))"
  using all_curve_is_sum_on_sorted_distances [OF earth_only_res] earth_only_res
  by blast

text \<open>
  C2. For all \<open>M\<close>, \<open>R\<close>, \<open>S\<close>: if \<open>S < R\<close> then \<open>get_phi M R S\<close> is
  \<open>G * M * (S\<^sup>2 - 3 * R\<^sup>2) / (2 * R ^ 3)\<close>, and otherwise it is \<open>- G * M / S\<close>, with
  \<open>G = 7.4e-28\<close>. Where the divisor of the formula is zero the formula has no value:
  there the call on Python's numbers raises ZeroDivisionError and the call with a numpy
  \<open>S\<close> gives a value that is not finite. Everywhere else both calls give the value of the
  potential as the specification words it.
\<close>

theorem get_phi_piecewise:
  "G = 74 / 10 ^ 29 \<and>
   get_phi M R S =
     (case potential_spec M R S of None \<Rightarrow> Inl ZeroDivisionError | Some v \<Rightarrow> Inr v) \<and>
   get_phi_np M R S =
     (case potential_spec M R S of None \<Rightarrow> NonFinite | Some v \<Rightarrow> Finite v) \<and>
   (S < R \<longrightarrow> get_phi M R S =
      (if 2 * R ^ 3 = 0 then Inl ZeroDivisionError
       else Inr (G * M * (S\<^sup>2 - 3 * R\<^sup>2) / (2 * R ^ 3)))) \<and>
   (R \<le> S \<longrightarrow> get_phi M R S =
      (if S = 0 then Inl ZeroDivisionError else Inr (- G * M / S)))"
proof (intro conjI impI)
  show "G = 74 / 10 ^ 29" by (rule G_value)
  show "get_phi M R S =
      (case potential_spec M R S of None \<Rightarrow> Inl ZeroDivisionError | Some v \<Rightarrow> Inr v)"
    by (simp add: get_phi_def truediv_def potential_spec_def G_value)
  show "get_phi_np M R S =
      (case potential_spec M R S of None \<Rightarrow> NonFinite | Some v \<Rightarrow> Finite v)"
    by (simp add: get_phi_np_def np_truediv_def potential_spec_def G_value)
  show "get_phi M R S =
      (if 2 * R ^ 3 = 0 then Inl ZeroDivisionError
       else Inr (G * M * (S\<^sup>2 - 3 * R\<^sup>2) / (2 * R ^ 3)))" if "S < R"
    using that by (simp add: get_phi_inside)
  show "get_phi M R S = (if S = 0 then Inl ZeroDivisionError else Inr (- G * M / S))"
    if "R \<le> S"
    using that by (simp add: get_phi_outside)
qed

theorem get_phi_piecewise_witness:
  "(1::real) < 2 \<and> get_phi 1 2 1 = Inr (G * 1 * (1\<^sup>2 - 3 * 2\<^sup>2) / (2 * 2 ^ 3)) \<and>
   (2::real) \<le> 4 \<and> get_phi 1 2 4 = Inr (- G * 1 / 4)"
  using get_phi_piecewise [of 1 2 1, THEN conjunct2, THEN conjunct2, THEN conjunct2, THEN conjunct1]
    get_phi_piecewise [of 1 2 4, THEN conjunct2, THEN conjunct2, THEN conjunct2, THEN conjunct2]
  by simp

text \<open>
  C3. For every \<open>M\<close> and every \<open>R > 0\<close> the potential is continuous at \<open>S = R\<close>: the
  interior formula at \<open>S = R\<close> equals the exterior formula at \<open>S = R\<close>, both are
  \<open>- G * M / R\<close>, which is the value of \<open>get_phi M R R\<close>, the limit from the left and the
  limit from the right.
\<close>

theorem get_phi_continuous_at_R:
  assumes "0 < R"
  shows "G * M * (R\<^sup>2 - 3 * R\<^sup>2) / (2 * R ^ 3) = - G * M / R \<and>
    get_phi M R R = Inr (- G * M / R) \<and>
    ((\<lambda>S. projr (get_phi M R S)) \<longlongrightarrow> - G * M / R) (at_left R) \<and>
    ((\<lambda>S. projr (get_phi M R S)) \<longlongrightarrow> - G * M / R) (at_right R) \<and>
    isCont (\<lambda>S. projr (get_phi M R S)) R"
  by (intro conjI branches_meet get_phi_at_R get_phi_left get_phi_right get_phi_isCont assms)

theorem get_phi_continuous_at_R_witness:
  "(0::real) < 2 \<and> get_phi 3 2 2 = Inr (- G * 3 / 2) \<and>
   isCont (\<lambda>S. projr (get_phi 3 2 S)) 2"
  using get_phi_continuous_at_R [of 2 3] by simp

text \<open>
  C4. For \<open>M \<ge> 0\<close>, \<open>R \<ge> 0\<close> and \<open>S \<ge> 0\<close> for which \<open>get_phi M R S\<close> is defined,
  the stored magnitude \<open>- get_phi M R S\<close> is nonnegative, in the call on Python's numbers
  and in the call with a numpy \<open>S\<close> alike. Hence, when every body has \<open>M \<ge> 0\<close> and
  \<open>R \<ge> 0\<close>, every value of every sample of every curve is a finite nonnegative number:
  the curves of the bodies as the loop leaves them, and the final dict with the curve
  \<^verbatim>\<open>'all'\<close>.
\<close>

theorem magnitude_nonneg:
  "(0 \<le> M \<and> 0 \<le> R \<and> 0 \<le> S \<and> get_phi M R S = Inr u \<longrightarrow> 0 \<le> - u) \<and>
   (0 \<le> M \<and> 0 \<le> R \<and> 0 \<le> S \<and> np_neg (get_phi_np M R S) = Finite w \<longrightarrow> 0 \<le> w) \<and>
   (solar_system_gravitational_potential all_data = Inr res \<and>
    (\<forall>(name, p)\<in>set (data_of res). 0 \<le> pM p \<and> 0 \<le> pR p) \<longrightarrow>
      (\<forall>(name, curve)\<in>set (body_phi_of res) \<union> set (phi_of res).
         \<forall>(d, v)\<in>set curve. \<exists>x. v = Finite x \<and> 0 \<le> x))"
proof (intro conjI impI)
  assume "0 \<le> M \<and> 0 \<le> R \<and> 0 \<le> S \<and> get_phi M R S = Inr u"
  then have "u \<le> 0" using get_phi_nonpos by blast
  then show "0 \<le> - u" by simp
next
  assume a: "0 \<le> M \<and> 0 \<le> R \<and> 0 \<le> S \<and> np_neg (get_phi_np M R S) = Finite w"
  then obtain u where u: "get_phi_np M R S = Finite u" and w: "w = - u"
    by (cases "get_phi_np M R S") auto
  from u have "get_phi M R S = Inr u" by (simp add: get_phi_np_Finite)
  with a have "u \<le> 0" using get_phi_nonpos by blast
  then show "0 \<le> w" by (simp add: w)
next
  assume a: "solar_system_gravitational_potential all_data = Inr res \<and>
    (\<forall>(name, p)\<in>set (data_of res). 0 \<le> pM p \<and> 0 \<le> pR p)"
  then have r: "solar_system_gravitational_potential all_data = Inr res"
    and M: "\<And>name p. (name, p) \<in> set (data_of res) \<Longrightarrow> 0 \<le> pM p"
    and R0: "\<And>name p. (name, p) \<in> set (data_of res) \<Longrightarrow> 0 \<le> pR p"
    by auto
  have R: "0 < pR p" if "(name, p) \<in> set (data_of res)" for name p
    using R0 [OF that] ssgp_radius [OF r that] by simp
  have body: "\<exists>x. v = Finite x \<and> 0 \<le> x"
    if "(name, curve) \<in> set (body_phi_of res)" "(d, v) \<in> set curve"
    for name curve d v
  proof -
    from ssgp_body_curve [OF r that(1)] obtain p where
      p: "(name, p) \<in> set (data_of res)" and
      c: "sample_body (base_S_range_of res) p = Inr curve"
      by blast
    show ?thesis
      by (rule sample_body_value_nonneg [OF c that(2) M [OF p] R [OF p]])
  qed
  from ssgp_all_curve [OF r] obtain all_curve where
    p: "phi_of res = AList.update ''all'' all_curve (body_phi_of res)" and
    t: "\<forall>(d, v)\<in>set all_curve. v = total_at (data_of res) d"
    by blast
  have agg: "\<exists>x. v = Finite x \<and> 0 \<le> x" if "(d, v) \<in> set all_curve" for d v
  proof -
    from t that have tv: "v = total_at (data_of res) d" by blast
    have def: "\<forall>p\<in>set (map snd (data_of res)). \<exists>u. get_phi (pM p) (pR p) \<bar>pS p - d\<bar> = Inr u"
    proof
      fix p
      assume "p \<in> set (map snd (data_of res))"
      then obtain name where "(name, p) \<in> set (data_of res)" by auto
      from get_phi_defined [OF R [OF this]]
      show "\<exists>u. get_phi (pM p) (pR p) \<bar>pS p - d\<bar> = Inr u" .
    qed
    have "0 \<le> - projr (get_phi (pM p) (pR p) \<bar>pS p - d\<bar>)" if "p \<in> set (map snd (data_of res))" for p
    proof -
      from that obtain name where n: "(name, p) \<in> set (data_of res)" by auto
      from def that obtain w where w: "get_phi (pM p) (pR p) \<bar>pS p - d\<bar> = Inr w" by blast
      have "w \<le> 0"
        by (rule get_phi_nonpos [OF M [OF n] _ _ w]) (use R [OF n] in simp_all)
      then show ?thesis by (simp add: w)
    qed
    then have "0 \<le> (\<Sum>p\<leftarrow>map snd (data_of res). - projr (get_phi (pM p) (pR p) \<bar>pS p - d\<bar>))"
      by (intro sum_list_nonneg) force
    with total_at_Finite [OF def] show ?thesis by (simp add: tv)
  qed
  show "\<forall>(name, curve)\<in>set (body_phi_of res) \<union> set (phi_of res).
      \<forall>(d, v)\<in>set curve. \<exists>x. v = Finite x \<and> 0 \<le> x"
  proof (intro ballI, clarify)
    fix name curve d v
    assume nc: "(name, curve) \<in> set (body_phi_of res) \<union> set (phi_of res)"
      and dv: "(d, v) \<in> set curve"
    from nc p set_update_subset [of "''all''" all_curve "body_phi_of res"]
    have "(name, curve) \<in> set (body_phi_of res) \<or> curve = all_curve"
      by auto
    then show "\<exists>x. v = Finite x \<and> 0 \<le> x"
      using body agg dv by blast
  qed
qed

theorem magnitude_nonneg_witness:
  "(0::real) \<le> 3 \<and> (0::real) \<le> 2 \<and> (0::real) \<le> 1 \<and>
   get_phi 3 2 1 = Inr (- (G * 33 / 16)) \<and> 0 \<le> - (- (G * 33 / 16)) \<and>
   np_neg (get_phi_np 3 2 1) = Finite (G * 33 / 16) \<and> 0 \<le> G * 33 / 16 \<and>
   solar_system_gravitational_potential earth_only =
     Inr (projr (solar_system_gravitational_potential earth_only)) \<and>
   data_of (projr (solar_system_gravitational_potential earth_only)) =
     [(''earth'', \<lparr>pM = 5.97 * 10 ^ 24, pS = 149.6 * 10 ^ 9, pR = 6371 * 10 ^ 3\<rparr>),
      (''sun'', \<lparr>pM = M_sun, pS = 0, pR = R_sun\<rparr>)] \<and>
   (0::real) \<le> 5.97 * 10 ^ 24 \<and> (0::real) \<le> 6371 * 10 ^ 3 \<and> 0 \<le> M_sun \<and> 0 \<le> R_sun \<and>
   list_all (\<lambda>(name, curve). list_all (\<lambda>(d, v). \<exists>x. v = Finite x \<and> 0 \<le> x) curve)
     (phi_of (projr (solar_system_gravitational_potential earth_only)))"
proof -
  let ?res = "projr (solar_system_gravitational_potential earth_only)"
  have g: "get_phi 3 2 1 = Inr (- (G * 33 / 16))"
    by (simp add: get_phi_def truediv_def)
  have gn: "np_neg (get_phi_np 3 2 1) = Finite (G * 33 / 16)"
    by (simp add: get_phi_np_def np_truediv_def)
  have s: "0 \<le> M_sun" "0 \<le> R_sun"
    by (simp_all add: M_sun_def R_sun_def)
  have b: "\<forall>(name, p)\<in>set (data_of ?res). 0 \<le> pM p \<and> 0 \<le> pR p"
    using s by (simp add: earth_only_data)
  from magnitude_nonneg [of 3 2 1 "- (G * 33 / 16)" "G * 33 / 16" earth_only ?res] g
  have "0 \<le> - (- (G * 33 / 16))"
    by simp
  moreover from magnitude_nonneg [of 3 2 1 "- (G * 33 / 16)" "G * 33 / 16" earth_only ?res] gn
  have "0 \<le> G * 33 / 16"
    by simp
  moreover
  from magnitude_nonneg [of 3 2 1 "- (G * 33 / 16)" "G * 33 / 16" earth_only ?res]
    earth_only_res b
  have "\<forall>(name, curve)\<in>set (phi_of ?res). \<forall>(d, v)\<in>set curve. \<exists>x. v = Finite x \<and> 0 \<le> x"
    by blast
  then have "list_all (\<lambda>(name, curve). list_all (\<lambda>(d, v). \<exists>x. v = Finite x \<and> 0 \<le> x) curve)
      (phi_of ?res)"
    by (simp add: list_all_iff)
  ultimately show ?thesis
    using g gn s earth_only_res earth_only_data by simp
qed

text \<open>
  C5. Under the precondition \<open>R > 0\<close>, for every \<open>M\<close> and every \<open>S \<ge> 0\<close>: the divisor
  \<open>2 * R ^ 3\<close> of the branch \<open>S < R\<close> and the divisor \<open>S\<close> of the other branch are not
  zero, so \<open>get_phi M R S\<close> returns a value, a finite one with a numpy \<open>S\<close> too; the
  step \<open>R / 100\<close> of the dense grid is not zero, the grid is built, and the sampling of
  a body of radius \<open>R\<close> raises nothing, whatever the coarse grid.
\<close>

theorem no_division_by_zero:
  assumes "0 < R" and "0 \<le> S"
  shows "(S < R \<longrightarrow> 2 * R ^ 3 \<noteq> 0) \<and> (R \<le> S \<longrightarrow> S \<noteq> 0) \<and>
    (\<exists>v. get_phi M R S = Inr v) \<and>
    (\<exists>v. get_phi_np M R S = Finite v) \<and>
    R / 100 \<noteq> 0 \<and>
    S_range_of \<lparr>pM = M, pS = d, pR = R\<rparr> =
      Inr (map (\<lambda>i. real i * (R / 100)) [0..<10000]) \<and>
    (\<exists>curve. sample_body base_S_range \<lparr>pM = M, pS = d, pR = R\<rparr> = Inr curve)"
proof -
  have "\<exists>curve. sample_body base_S_range \<lparr>pM = M, pS = d, pR = R\<rparr> = Inr curve"
    by (rule sample_body_defined) (use assms in simp)
  moreover have "S_range_of \<lparr>pM = M, pS = d, pR = R\<rparr> =
      Inr (map (\<lambda>i. real i * (R / 100)) [0..<10000])"
    using S_range_of_eq [of "\<lparr>pM = M, pS = d, pR = R\<rparr>"] assms by simp
  moreover have "\<exists>v. get_phi_np M R S = Finite v"
    using get_phi_np_pos [OF assms(1)] by blast
  ultimately show ?thesis
    using assms get_phi_defined [of R M S] by auto
qed

theorem no_division_by_zero_witness:
  "(0::real) < 2 \<and> (0::real) \<le> 1 \<and> (\<exists>v. get_phi 3 2 1 = Inr v) \<and>
   (\<exists>curve. sample_body [] \<lparr>pM = 3, pS = 5, pR = 2\<rparr> = Inr curve)"
  using no_division_by_zero [of 2 1 3 5 "[]"] by simp

text \<open>
  C6. If the cache file is read and parsed, \<open>get_solar_system_data\<close> returns its content
  and leaves the world, the cache file included, as it was. If reading the cache fails,
  with whatever error, the fixed URL is fetched: when that succeeds and the file can be
  written, the fetched data is returned and the cache file holds its dump; when the
  fetch fails, or the write does, that error is the result, uncaught. The cache is read
  from the file \<^const>\<open>fname\<close> and the data fetched from \<^const>\<open>url\<close>.
\<close>

theorem get_solar_system_data_cases:
  "(read_cache loads w = Inr d \<longrightarrow> get_solar_system_data loads dumps w = (Inr d, w)) \<and>
   (read_cache loads w = Inl e \<and> fetch loads w = Inr d \<and> writable w \<longrightarrow>
      get_solar_system_data loads dumps w =
        (Inr d, w\<lparr>files := (files w)(fname \<mapsto> dumps d)\<rparr>)) \<and>
   (read_cache loads w = Inl e \<and> fetch loads w = Inl e' \<longrightarrow>
      get_solar_system_data loads dumps w = (Inl e', w)) \<and>
   (read_cache loads w = Inl e \<and> fetch loads w = Inr d \<and> write_cache dumps d w = Inl e' \<longrightarrow>
      get_solar_system_data loads dumps w = (Inl e', w)) \<and>
   (read_cache loads w = Inr d \<longleftrightarrow> (\<exists>txt. files w fname = Some txt \<and> loads txt = Some d)) \<and>
   (fetch loads w = Inr d \<longleftrightarrow> (\<exists>txt. remote w url = Some txt \<and> loads txt = Some d))"
  by (auto simp: get_solar_system_data_def read_cache_def fetch_def write_cache_def
      split: option.splits sum.splits)

theorem get_solar_system_data_cases_witness:
  "read_cache toy_loads \<lparr>files = [fname \<mapsto> ''{}''], remote = Map.empty, writable = False\<rparr> = Inr [] \<and>
   get_solar_system_data toy_loads toy_dumps
       \<lparr>files = [fname \<mapsto> ''{}''], remote = Map.empty, writable = False\<rparr> =
     (Inr [], \<lparr>files = [fname \<mapsto> ''{}''], remote = Map.empty, writable = False\<rparr>) \<and>
   read_cache toy_loads \<lparr>files = Map.empty, remote = [url \<mapsto> ''{}''], writable = True\<rparr> =
     Inl FileNotFoundError \<and>
   fetch toy_loads \<lparr>files = Map.empty, remote = [url \<mapsto> ''{}''], writable = True\<rparr> = Inr [] \<and>
   get_solar_system_data toy_loads toy_dumps
       \<lparr>files = Map.empty, remote = [url \<mapsto> ''{}''], writable = True\<rparr> =
     (Inr [], \<lparr>files = [fname \<mapsto> ''{}''], remote = [url \<mapsto> ''{}''], writable = True\<rparr>) \<and>
   read_cache toy_loads \<lparr>files = [fname \<mapsto> ''garbage''], remote = Map.empty, writable = True\<rparr> =
     Inl JSONDecodeError \<and>
   fetch toy_loads \<lparr>files = [fname \<mapsto> ''garbage''], remote = Map.empty, writable = True\<rparr> =
     Inl RequestException \<and>
   get_solar_system_data toy_loads toy_dumps
       \<lparr>files = [fname \<mapsto> ''garbage''], remote = Map.empty, writable = True\<rparr> =
     (Inl RequestException,
      \<lparr>files = [fname \<mapsto> ''garbage''], remote = Map.empty, writable = True\<rparr>) \<and>
   write_cache toy_dumps [] \<lparr>files = Map.empty, remote = [url \<mapsto> ''{}''], writable = False\<rparr> =
     Inl PermissionError \<and>
   get_solar_system_data toy_loads toy_dumps
       \<lparr>files = Map.empty, remote = [url \<mapsto> ''{}''], writable = False\<rparr> =
     (Inl PermissionError, \<lparr>files = Map.empty, remote = [url \<mapsto> ''{}''], writable = False\<rparr>)"
proof -
  let ?hit = "\<lparr>files = [fname \<mapsto> ''{}''], remote = Map.empty, writable = False\<rparr>"
  let ?miss = "\<lparr>files = Map.empty, remote = [url \<mapsto> ''{}''], writable = True\<rparr>"
  let ?bad = "\<lparr>files = [fname \<mapsto> ''garbage''], remote = Map.empty, writable = True\<rparr>"
  let ?ro = "\<lparr>files = Map.empty, remote = [url \<mapsto> ''{}''], writable = False\<rparr>"
  have r1: "read_cache toy_loads ?hit = Inr []"
    by (simp add: read_cache_def toy_loads_def)
  have r2: "read_cache toy_loads ?miss = Inl FileNotFoundError"
    by (simp add: read_cache_def)
  have f2: "fetch toy_loads ?miss = Inr []"
    by (simp add: fetch_def toy_loads_def)
  have r3: "read_cache toy_loads ?bad = Inl JSONDecodeError"
    by (simp add: read_cache_def toy_loads_def)
  have f3: "fetch toy_loads ?bad = Inl RequestException"
    by (simp add: fetch_def)
  have r4: "read_cache toy_loads ?ro = Inl FileNotFoundError"
    by (simp add: read_cache_def)
  have f4: "fetch toy_loads ?ro = Inr []"
    by (simp add: fetch_def toy_loads_def)
  have w4: "write_cache toy_dumps [] ?ro = Inl PermissionError"
    by (simp add: write_cache_def)
  have g1: "get_solar_system_data toy_loads toy_dumps ?hit = (Inr [], ?hit)"
    using get_solar_system_data_cases [of toy_loads ?hit "[]" toy_dumps] r1 by blast
  have "get_solar_system_data toy_loads toy_dumps ?miss =
      (Inr [], ?miss\<lparr>files := (files ?miss)(fname \<mapsto> toy_dumps [])\<rparr>)"
    using get_solar_system_data_cases [of toy_loads ?miss "[]" toy_dumps FileNotFoundError] r2 f2
    by simp
  then have g2: "get_solar_system_data toy_loads toy_dumps ?miss =
      (Inr [], \<lparr>files = [fname \<mapsto> ''{}''], remote = [url \<mapsto> ''{}''], writable = True\<rparr>)"
    by (simp add: toy_dumps_def)
  have g3: "get_solar_system_data toy_loads toy_dumps ?bad = (Inl RequestException, ?bad)"
    using get_solar_system_data_cases
      [of toy_loads ?bad _ toy_dumps JSONDecodeError RequestException] r3 f3
    by blast
  have g4: "get_solar_system_data toy_loads toy_dumps ?ro = (Inl PermissionError, ?ro)"
    using get_solar_system_data_cases
      [of toy_loads ?ro "[]" toy_dumps FileNotFoundError PermissionError] r4 f4 w4
    by blast
  from r1 g1 r2 f2 g2 r3 f3 g3 w4 g4 show ?thesis
    by (intro conjI)
qed



text \<open>
  C8. As stated, for every sample of every curve, the claim fails, in two ways. Nothing
  keeps the \<open>S\<close> of a body nonnegative: in the dataset \<^const>\<open>with_probe\<close> the body
  \<^verbatim>\<open>'probe'\<close> has \<open>S = - 10 ^ 9\<close>, the function returns, and the first dense sample of that
  body, at offset 0, is at the distance \<open>- 10 ^ 9\<close>. And nothing keeps the dense offsets
  nonnegative: in the dataset \<^const>\<open>with_shell\<close> the body \<^verbatim>\<open>'shell'\<close> has \<open>S = 0\<close> and
  the radius \<open>- 1000\<close>, the function returns, and the second dense sample of that body,
  at offset \<open>- 10\<close>, is at the distance \<open>- 10\<close>.
\<close>

theorem negative_distance_counterexample:
  "\<not> isl (solar_system_gravitational_potential with_probe) \<and>
   map_of (data_of (projr (solar_system_gravitational_potential with_probe))) ''probe'' =
     Some \<lparr>pM = 1 * 10 ^ 24, pS = (- 1) * 10 ^ 9, pR = 1 * 10 ^ 3\<rparr> \<and>
   (- (10 ^ 9), Finite (111 / 10 ^ 8)) \<in>
     set (the (map_of (phi_of (projr (solar_system_gravitational_potential with_probe))) ''probe'')) \<and>
   \<not> (0::real) \<le> - (10 ^ 9) \<and>
   \<not> isl (solar_system_gravitational_potential with_shell) \<and>
   map_of (data_of (projr (solar_system_gravitational_potential with_shell))) ''shell'' =
     Some \<lparr>pM = 1 * 10 ^ 24, pS = 0 * 10 ^ 9, pR = (- 1) * 10 ^ 3\<rparr> \<and>
   (- 10, Finite (- (74 / 10 ^ 6))) \<in>
     set (the (map_of (phi_of (projr (solar_system_gravitational_potential with_shell))) ''shell'')) \<and>
   \<not> (0::real) \<le> - 10"
proof -
  let ?res = "projr (solar_system_gravitational_potential with_probe)"
  let ?p = "\<lparr>pM = 1 * 10 ^ 24, pS = (- 1) * 10 ^ 9, pR = 1 * 10 ^ 3\<rparr>"
  have mem: "(''probe'', ?p) \<in> set (data_of ?res)"
    by (simp add: with_probe_data)
  from ssgp_curve_of_body [OF with_probe_res mem] obtain curve where
    m: "map_of (body_phi_of ?res) ''probe'' = Some curve" and
    c: "sample_body (base_S_range_of ?res) ?p = Inr curve"
    by blast
  from ssgp_all_curve [OF with_probe_res] obtain all_curve where
    "phi_of ?res = AList.update ''all'' all_curve (body_phi_of ?res)"
    by blast
  then have m': "map_of (phi_of ?res) ''probe'' = Some curve"
    using m by (simp add: update_conv')
  have lt: "(0::nat) < 10000" by simp
  have "np_neg (get_phi_np (pM ?p) (pR ?p) (real 0 * (pR ?p / 100))) = Finite (111 / 10 ^ 8)"
    by (simp add: get_phi_np_def np_truediv_def G_value)
  moreover have "pS ?p + real 0 * (pR ?p / 100) = - (10 ^ 9)"
    by simp
  ultimately have "(- (10 ^ 9), Finite (111 / 10 ^ 8)) \<in> set curve"
    using sample_body_mirror [OF c lt] by simp
  then have in_curve:
    "(- (10 ^ 9), Finite (111 / 10 ^ 8)) \<in> set (the (map_of (phi_of ?res) ''probe''))"
    by (simp only: m' option.sel)
  have ok: "\<not> isl (solar_system_gravitational_potential with_probe)"
    by (subst with_probe_res) simp
  have body: "map_of (data_of ?res) ''probe'' = Some ?p"
    by (simp add: with_probe_data)
  let ?res2 = "projr (solar_system_gravitational_potential with_shell)"
  let ?q = "\<lparr>pM = 1 * 10 ^ 24, pS = 0 * 10 ^ 9, pR = (- 1) * 10 ^ 3\<rparr>"
  have mem2: "(''shell'', ?q) \<in> set (data_of ?res2)"
    by (simp add: with_shell_data)
  from ssgp_curve_of_body [OF with_shell_res mem2] obtain curve2 where
    m2: "map_of (body_phi_of ?res2) ''shell'' = Some curve2" and
    c2: "sample_body (base_S_range_of ?res2) ?q = Inr curve2"
    by blast
  from ssgp_all_curve [OF with_shell_res] obtain all_curve2 where
    "phi_of ?res2 = AList.update ''all'' all_curve2 (body_phi_of ?res2)"
    by blast
  then have m2': "map_of (phi_of ?res2) ''shell'' = Some curve2"
    using m2 by (simp add: update_conv')
  have lt1: "(1::nat) < 10000" by simp
  have "np_neg (get_phi_np (pM ?q) (pR ?q) (real 1 * (pR ?q / 100))) = Finite (- (74 / 10 ^ 6))"
    by (simp add: get_phi_np_def np_truediv_def G_value)
  moreover have "pS ?q + real 1 * (pR ?q / 100) = - 10"
    by simp
  ultimately have "(- 10, Finite (- (74 / 10 ^ 6))) \<in> set curve2"
    using sample_body_mirror [OF c2 lt1] by simp
  then have in_curve2:
    "(- 10, Finite (- (74 / 10 ^ 6))) \<in> set (the (map_of (phi_of ?res2) ''shell''))"
    by (simp only: m2' option.sel)
  have ok2: "\<not> isl (solar_system_gravitational_potential with_shell)"
    by (subst with_shell_res) simp
  have body2: "map_of (data_of ?res2) ''shell'' = Some ?q"
    by (simp add: with_shell_data)
  have neg: "\<not> (0::real) \<le> - (10 ^ 9)" "\<not> (0::real) \<le> - 10"
    by simp_all
  from ok body in_curve neg ok2 body2 in_curve2 show ?thesis
    by (intro conjI)
qed

text \<open>
  C8, amended. When the function returns, every sample of the curve of a body \<open>p\<close> is
  a dense sample at \<open>p.S + S\<close>, or a mirrored sample at \<open>p.S - S\<close>, which is there only
  with \<open>p.S - S > 0\<close>, or a coarse sample at a grid point in \<open>[0, max_S)\<close>; the offsets
  \<open>S\<close> are the points \<open>k * (p.R / 100)\<close> of the dense grid. So every distance in the
  curve of a body with \<open>p.S \<ge> 0\<close> and \<open>p.R > 0\<close> is nonnegative (the Sun, with \<open>S = 0\<close>
  and its positive radius, has no negative distance); and when every body has
  \<open>p.S \<ge> 0\<close> and \<open>p.R > 0\<close>, every distance of every curve, \<^verbatim>\<open>'all'\<close> included, is
  nonnegative.
\<close>

theorem distances_nonneg:
  assumes "solar_system_gravitational_potential all_data = Inr res"
  shows "(\<forall>(name, p)\<in>set (data_of res).
       \<exists>curve. map_of (body_phi_of res) name = Some curve \<and>
         (\<forall>(d, v)\<in>set curve.
            (\<exists>i<10000. d = pS p + real i * (pR p / 100)) \<or>
            (\<exists>i<10000. d = pS p - real i * (pR p / 100) \<and> 0 < d) \<or>
            (d \<in> set (base_S_range_of res) \<and> 0 \<le> d \<and> d < max_S_of res)) \<and>
         (0 \<le> pS p \<and> 0 < pR p \<longrightarrow> (\<forall>(d, v)\<in>set curve. 0 \<le> d))) \<and>
    (''sun'', \<lparr>pM = M_sun, pS = 0, pR = R_sun\<rparr>) \<in> set (data_of res) \<and> 0 < R_sun \<and>
    ((\<forall>(name, p)\<in>set (data_of res). 0 \<le> pS p \<and> 0 < pR p) \<longrightarrow>
       (\<forall>(name, curve)\<in>set (body_phi_of res) \<union> set (phi_of res).
          \<forall>(d, v)\<in>set curve. 0 \<le> d))"
proof -
  have shape: "(\<exists>i<10000. d = pS p + real i * (pR p / 100)) \<or>
            (\<exists>i<10000. d = pS p - real i * (pR p / 100) \<and> 0 < d) \<or>
            (d \<in> set (base_S_range_of res) \<and> 0 \<le> d \<and> d < max_S_of res)"
    if c: "sample_body (base_S_range_of res) p = Inr curve" and dv: "(d, v) \<in> set curve"
    for p curve d v
    using sample_body_shape [OF c dv] ssgp_base_bounds [OF assms] by blast
  have nonneg: "0 \<le> d"
    if c: "sample_body (base_S_range_of res) p = Inr curve" and dv: "(d, v) \<in> set curve"
      and S: "0 \<le> pS p" and R: "0 < pR p"
    for p curve d v
  proof -
    from shape [OF c dv] consider
      (plus) i where "d = pS p + real i * (pR p / 100)"
      | (other) "0 \<le> d"
      by fastforce
    then show ?thesis
    proof cases
      case plus
      have "0 \<le> real i * (pR p / 100)" using R by simp
      then show ?thesis using plus S by simp
    next
      case other
      then show ?thesis .
    qed
  qed
  have bodies: "\<forall>(name, p)\<in>set (data_of res).
       \<exists>curve. map_of (body_phi_of res) name = Some curve \<and>
         (\<forall>(d, v)\<in>set curve.
            (\<exists>i<10000. d = pS p + real i * (pR p / 100)) \<or>
            (\<exists>i<10000. d = pS p - real i * (pR p / 100) \<and> 0 < d) \<or>
            (d \<in> set (base_S_range_of res) \<and> 0 \<le> d \<and> d < max_S_of res)) \<and>
         (0 \<le> pS p \<and> 0 < pR p \<longrightarrow> (\<forall>(d, v)\<in>set curve. 0 \<le> d))"
  proof (intro ballI, clarify)
    fix name p
    assume np: "(name, p) \<in> set (data_of res)"
    from ssgp_curve_of_body [OF assms np] obtain curve where
      m: "map_of (body_phi_of res) name = Some curve" and
      c: "sample_body (base_S_range_of res) p = Inr curve"
      by blast
    show "\<exists>curve. map_of (body_phi_of res) name = Some curve \<and>
         (\<forall>(d, v)\<in>set curve.
            (\<exists>i<10000. d = pS p + real i * (pR p / 100)) \<or>
            (\<exists>i<10000. d = pS p - real i * (pR p / 100) \<and> 0 < d) \<or>
            (d \<in> set (base_S_range_of res) \<and> 0 \<le> d \<and> d < max_S_of res)) \<and>
         (0 \<le> pS p \<and> 0 < pR p \<longrightarrow> (\<forall>(d, v)\<in>set curve. 0 \<le> d))"
    proof (intro exI [of _ curve] conjI impI ballI, goal_cases)
      case 1
      show ?case by (rule m)
    next
      case (2 x)
      obtain d v where x: "x = (d, v)" by (cases x)
      from shape [OF c 2 [unfolded x]] show ?case
        unfolding x by simp
    next
      case (3 x)
      obtain d v where x: "x = (d, v)" by (cases x)
      from 3(1) have "0 \<le> pS p" "0 < pR p" by simp_all
      from nonneg [OF c 3(2) [unfolded x] this] show ?case
        unfolding x by simp
    qed
  qed
  have everything: "\<forall>(name, curve)\<in>set (body_phi_of res) \<union> set (phi_of res).
      \<forall>(d, v)\<in>set curve. 0 \<le> d"
    if S: "\<forall>(name, p)\<in>set (data_of res). 0 \<le> pS p \<and> 0 < pR p"
  proof -
    have body: "0 \<le> d" if "(name, curve) \<in> set (body_phi_of res)" "(d, v) \<in> set curve"
      for name curve d v
    proof -
      from ssgp_body_curve [OF assms that(1)] obtain p where
        p: "(name, p) \<in> set (data_of res)" and
        c: "sample_body (base_S_range_of res) p = Inr curve"
        by blast
      from S p have "0 \<le> pS p" "0 < pR p" by blast+
      then show ?thesis
        using nonneg [OF c that(2)] by simp
    qed
    from ssgp_all_curve [OF assms] obtain all_curve where
      p: "phi_of res = AList.update ''all'' all_curve (body_phi_of res)" and
      f: "map fst all_curve = sort (all_S_values_of (body_phi_of res))"
      by blast
    have agg: "0 \<le> d" if "(d, v) \<in> set all_curve" for d v
    proof -
      from that have "d \<in> set (map fst all_curve)" by force
      then have "d \<in> set (all_S_values_of (body_phi_of res))"
        by (simp only: f set_sort)
      then show ?thesis
        using body by (auto simp: all_S_values_mem)
    qed
    show ?thesis
    proof (intro ballI, clarify)
      fix name curve d v
      assume nc: "(name, curve) \<in> set (body_phi_of res) \<union> set (phi_of res)"
        and dv: "(d, v) \<in> set curve"
      from nc p set_update_subset [of "''all''" all_curve "body_phi_of res"]
      have "(name, curve) \<in> set (body_phi_of res) \<or> curve = all_curve"
        by auto
      then show "0 \<le> d"
        using body agg dv by blast
    qed
  qed
  have "0 < R_sun" by (simp add: R_sun_def)
  with bodies everything ssgp_sun [OF assms] show ?thesis
    by (intro conjI impI)
qed

theorem distances_nonneg_witness:
  "solar_system_gravitational_potential earth_only =
     Inr (projr (solar_system_gravitational_potential earth_only)) \<and>
   data_of (projr (solar_system_gravitational_potential earth_only)) =
     [(''earth'', \<lparr>pM = 5.97 * 10 ^ 24, pS = 149.6 * 10 ^ 9, pR = 6371 * 10 ^ 3\<rparr>),
      (''sun'', \<lparr>pM = M_sun, pS = 0, pR = R_sun\<rparr>)] \<and>
   (0::real) \<le> 149.6 * 10 ^ 9 \<and> (0::real) < 6371 * 10 ^ 3 \<and> (0::real) \<le> 0 \<and> 0 < R_sun \<and>
   list_all (\<lambda>(name, curve). list_all (\<lambda>(d, v). 0 \<le> d) curve)
     (phi_of (projr (solar_system_gravitational_potential earth_only)))"
proof -
  let ?res = "projr (solar_system_gravitational_potential earth_only)"
  have r: "0 < R_sun" by (simp add: R_sun_def)
  have b: "\<forall>(name, p)\<in>set (data_of ?res). 0 \<le> pS p \<and> 0 < pR p"
    using r by (simp add: earth_only_data)
  from distances_nonneg [OF earth_only_res] b
  have "\<forall>(name, curve)\<in>set (phi_of ?res). \<forall>(d, v)\<in>set curve. 0 \<le> d"
    by blast
  then have "list_all (\<lambda>(name, curve). list_all (\<lambda>(d, v). 0 \<le> d) curve) (phi_of ?res)"
    by (simp add: list_all_iff)
  then show ?thesis
    using r earth_only_res earth_only_data by simp
qed

text \<open>
  C9. As stated, with 7 elements, the claim fails: the call of line 121 leaves
  \<^verbatim>\<open>n_subticks\<close> at its default 9, and the \<^verbatim>\<open>subs\<close> of the minor locator has 9
  elements.
\<close>

theorem seven_minor_ticks_counterexample:
  "\<not> isl (restore_minor_ticks_log_plot n_subticks_default) \<and>
   length (subs (minor_locator (projr (restore_minor_ticks_log_plot n_subticks_default)))) = 9 \<and>
   (9::nat) \<noteq> 7"
  by (simp add: restore_default)

text \<open>
  C9, amended. The helper, as the function calls it, installs a minor locator of base
  10 whose \<^verbatim>\<open>subs\<close> is the 9 numbers 0.1, 0.2, ..., 0.9, each strictly between 0 and 1;
  the major locator has base 10 and \<^verbatim>\<open>subs\<close> 1.0, and the minor ticks have no label.
\<close>

theorem nine_minor_subs:
  "(\<exists>ax. restore_minor_ticks_log_plot n_subticks_default = Inr ax \<and>
      subs (minor_locator ax) = [1/10, 2/10, 3/10, 4/10, 5/10, 6/10, 7/10, 8/10, 9/10] \<and>
      length (subs (minor_locator ax)) = 9 \<and>
      (\<forall>s\<in>set (subs (minor_locator ax)). 0 < s \<and> s < 1) \<and>
      base (minor_locator ax) = 10 \<and>
      base (major_locator ax) = 10 \<and> subs (major_locator ax) = [1] \<and>
      minor_formatter ax = NullFormatter \<and>
      (solar_system_gravitational_potential all_data = Inr res \<longrightarrow> yaxis_of res = ax))"
proof -
  have "solar_system_gravitational_potential all_data = Inr res \<longrightarrow>
      restore_minor_ticks_log_plot n_subticks_default = Inr (yaxis_of res)"
    by (auto elim: ssgp_Inr)
  then show ?thesis
    by (simp add: restore_default)
qed

theorem nine_minor_subs_witness:
  "solar_system_gravitational_potential earth_only =
     Inr (projr (solar_system_gravitational_potential earth_only)) \<and>
   subs (minor_locator (yaxis_of (projr (solar_system_gravitational_potential earth_only)))) =
     [1/10, 2/10, 3/10, 4/10, 5/10, 6/10, 7/10, 8/10, 9/10] \<and>
   list_all (\<lambda>s. 0 < s \<and> s < 1)
     (subs (minor_locator (yaxis_of (projr (solar_system_gravitational_potential earth_only)))))"
proof -
  from nine_minor_subs [of earth_only "projr (solar_system_gravitational_potential earth_only)"]
  obtain ax where
    s: "subs (minor_locator ax) = [1/10, 2/10, 3/10, 4/10, 5/10, 6/10, 7/10, 8/10, 9/10]" and
    b: "\<forall>s\<in>set (subs (minor_locator ax)). 0 < s \<and> s < 1" and
    y: "solar_system_gravitational_potential earth_only =
          Inr (projr (solar_system_gravitational_potential earth_only)) \<longrightarrow>
        yaxis_of (projr (solar_system_gravitational_potential earth_only)) = ax"
    by blast
  from y earth_only_res have e: "yaxis_of (projr (solar_system_gravitational_potential earth_only)) = ax"
    by blast
  from b have "list_all (\<lambda>s. 0 < s \<and> s < 1) (subs (minor_locator ax))"
    by (simp only: list_all_iff)
  with s earth_only_res show ?thesis
    by (simp only: e simp_thms)
qed

text \<open>
  C10. As stated, for every body, the claim fails: nothing keeps the radius of a body
  positive, and with a negative radius the dense offsets are negative. In the dataset
  \<^const>\<open>with_shell\<close> the body \<^verbatim>\<open>'shell'\<close> has \<open>S = 0\<close> and the radius \<open>- 1000\<close>; the
  function returns, and the curve of that body has the dense sample of offset \<open>- 10\<close>,
  at the distance \<open>d = - 10\<close> with the value \<open>v = - get_phi M R (- 10) = - 7.4e-5\<close>,
  whereas \<open>- get_phi M R \<bar>p.S - d\<bar> = - get_phi M R 10 = 7.4e-5\<close>.
\<close>

theorem body_curve_values_counterexample:
  "\<not> isl (solar_system_gravitational_potential with_shell) \<and>
   map_of (data_of (projr (solar_system_gravitational_potential with_shell))) ''shell'' =
     Some \<lparr>pM = 1 * 10 ^ 24, pS = 0 * 10 ^ 9, pR = (- 1) * 10 ^ 3\<rparr> \<and>
   (- 10, Finite (- (74 / 10 ^ 6))) \<in>
     set (the (map_of (phi_of (projr (solar_system_gravitational_potential with_shell))) ''shell'')) \<and>
   np_neg (get_phi_np (1 * 10 ^ 24) ((- 1) * 10 ^ 3) \<bar>0 * 10 ^ 9 - (- 10)\<bar>) = Finite (74 / 10 ^ 6) \<and>
   get_phi (1 * 10 ^ 24) ((- 1) * 10 ^ 3) \<bar>0 * 10 ^ 9 - (- 10)\<bar> = Inr (- (74 / 10 ^ 6)) \<and>
   Finite (- (74 / 10 ^ 6)) \<noteq> Finite (74 / 10 ^ 6)"
proof -
  let ?res = "projr (solar_system_gravitational_potential with_shell)"
  let ?q = "\<lparr>pM = 1 * 10 ^ 24, pS = 0 * 10 ^ 9, pR = (- 1) * 10 ^ 3\<rparr>"
  have mem: "(''shell'', ?q) \<in> set (data_of ?res)"
    by (simp add: with_shell_data)
  from ssgp_curve_of_body [OF with_shell_res mem] obtain curve where
    m: "map_of (body_phi_of ?res) ''shell'' = Some curve" and
    c: "sample_body (base_S_range_of ?res) ?q = Inr curve"
    by blast
  from ssgp_all_curve [OF with_shell_res] obtain all_curve where
    "phi_of ?res = AList.update ''all'' all_curve (body_phi_of ?res)"
    by blast
  then have m': "map_of (phi_of ?res) ''shell'' = Some curve"
    using m by (simp add: update_conv')
  have lt1: "(1::nat) < 10000" by simp
  have "np_neg (get_phi_np (pM ?q) (pR ?q) (real 1 * (pR ?q / 100))) = Finite (- (74 / 10 ^ 6))"
    by (simp add: get_phi_np_def np_truediv_def G_value)
  moreover have "pS ?q + real 1 * (pR ?q / 100) = - 10"
    by simp
  ultimately have "(- 10, Finite (- (74 / 10 ^ 6))) \<in> set curve"
    using sample_body_mirror [OF c lt1] by simp
  then have in_curve:
    "(- 10, Finite (- (74 / 10 ^ 6))) \<in> set (the (map_of (phi_of ?res) ''shell''))"
    by (simp only: m' option.sel)
  have ok: "\<not> isl (solar_system_gravitational_potential with_shell)"
    by (subst with_shell_res) simp
  have body: "map_of (data_of ?res) ''shell'' = Some ?q"
    by (simp add: with_shell_data)
  have claimed:
    "np_neg (get_phi_np (1 * 10 ^ 24) ((- 1) * 10 ^ 3) \<bar>0 * 10 ^ 9 - (- 10)\<bar>) = Finite (74 / 10 ^ 6)"
    by (simp add: get_phi_np_def np_truediv_def G_value)
  have claimed': "get_phi (1 * 10 ^ 24) ((- 1) * 10 ^ 3) \<bar>0 * 10 ^ 9 - (- 10)\<bar> = Inr (- (74 / 10 ^ 6))"
    by (simp add: get_phi_def truediv_def G_value)
  have ne: "Finite (- (74 / 10 ^ 6)) \<noteq> Finite (74 / 10 ^ 6)"
    by simp
  from ok body in_curve claimed claimed' ne show ?thesis
    by (intro conjI)
qed

text \<open>
  C10, amended. When the function returns, every body \<open>p\<close> has its curve in \<^verbatim>\<open>phi\<close>
  (also in the final dict, unless the body is named \<^verbatim>\<open>'all'\<close>). If \<open>p.R > 0\<close>, every
  sample \<open>(d, v)\<close> of it, dense, mirrored or coarse, has
  \<open>v = - get_phi p.M p.R \<bar>p.S - d\<bar>\<close>, a finite number. Whatever the radius: for each
  dense offset \<open>S\<close> the sample at \<open>p.S + S\<close> and, when \<open>p.S - S > 0\<close>, the sample at
  \<open>p.S - S\<close> are in the curve with the same value \<open>- get_phi p.M p.R S\<close>, and every
  coarse grid point \<open>S\<close> has the sample of value \<open>- get_phi p.M p.R \<bar>p.S - S\<bar>\<close>.
\<close>

theorem body_curve_values:
  assumes "solar_system_gravitational_potential all_data = Inr res"
    and "(name, p) \<in> set (data_of res)"
  shows "\<exists>curve. map_of (body_phi_of res) name = Some curve \<and>
    (name \<noteq> ''all'' \<longrightarrow> map_of (phi_of res) name = Some curve) \<and>
    sample_body (base_S_range_of res) p = Inr curve \<and>
    (0 < pR p \<longrightarrow>
       (\<forall>(d, v)\<in>set curve.
          \<exists>u. get_phi (pM p) (pR p) \<bar>pS p - d\<bar> = Inr u \<and> v = Finite (- u) \<and>
              v = np_neg (get_phi_np (pM p) (pR p) \<bar>pS p - d\<bar>))) \<and>
    (\<forall>i<10000.
       (pS p + real i * (pR p / 100),
        np_neg (get_phi_np (pM p) (pR p) (real i * (pR p / 100)))) \<in> set curve \<and>
       (0 < pS p - real i * (pR p / 100) \<longrightarrow>
          (pS p - real i * (pR p / 100),
           np_neg (get_phi_np (pM p) (pR p) (real i * (pR p / 100)))) \<in> set curve)) \<and>
    (\<forall>S\<in>set (base_S_range_of res).
       (S, np_neg (get_phi_np (pM p) (pR p) \<bar>pS p - S\<bar>)) \<in> set curve)"
proof -
  from ssgp_curve_of_body [OF assms] obtain curve where
    m: "map_of (body_phi_of res) name = Some curve" and
    c: "sample_body (base_S_range_of res) p = Inr curve"
    by blast
  from ssgp_all_curve [OF assms(1)] obtain all_curve where
    "phi_of res = AList.update ''all'' all_curve (body_phi_of res)"
    by blast
  then have m': "name \<noteq> ''all'' \<longrightarrow> map_of (phi_of res) name = Some curve"
    using m by (simp add: update_conv')
  have v: "\<forall>(d, v)\<in>set curve.
      \<exists>u. get_phi (pM p) (pR p) \<bar>pS p - d\<bar> = Inr u \<and> v = Finite (- u) \<and>
          v = np_neg (get_phi_np (pM p) (pR p) \<bar>pS p - d\<bar>)"
    if R: "0 < pR p"
  proof (intro ballI, clarify)
    fix d v
    assume "(d, v) \<in> set curve"
    from sample_body_values [OF c this R] obtain u where
      u: "get_phi (pM p) (pR p) \<bar>pS p - d\<bar> = Inr u" and v: "v = Finite (- u)"
      by blast
    then have "v = np_neg (get_phi_np (pM p) (pR p) \<bar>pS p - d\<bar>)"
      by (simp add: get_phi_np_eq)
    with u v show "\<exists>u. get_phi (pM p) (pR p) \<bar>pS p - d\<bar> = Inr u \<and> v = Finite (- u) \<and>
          v = np_neg (get_phi_np (pM p) (pR p) \<bar>pS p - d\<bar>)"
      by blast
  qed
  have mir: "\<forall>i<10000.
       (pS p + real i * (pR p / 100),
        np_neg (get_phi_np (pM p) (pR p) (real i * (pR p / 100)))) \<in> set curve \<and>
       (0 < pS p - real i * (pR p / 100) \<longrightarrow>
          (pS p - real i * (pR p / 100),
           np_neg (get_phi_np (pM p) (pR p) (real i * (pR p / 100)))) \<in> set curve)"
    using sample_body_mirror [OF c] by blast
  have co: "\<forall>S\<in>set (base_S_range_of res).
       (S, np_neg (get_phi_np (pM p) (pR p) \<bar>pS p - S\<bar>)) \<in> set curve"
    using sample_body_coarse [OF c] by blast
  from m m' c v mir co show ?thesis by blast
qed

theorem body_curve_values_witness:
  "solar_system_gravitational_potential earth_only =
     Inr (projr (solar_system_gravitational_potential earth_only)) \<and>
   (''earth'', \<lparr>pM = 5.97 * 10 ^ 24, pS = 149.6 * 10 ^ 9, pR = 6371 * 10 ^ 3\<rparr>) \<in>
     set (data_of (projr (solar_system_gravitational_potential earth_only))) \<and>
   (0::real) < 6371 * 10 ^ 3 \<and>
   (\<exists>curve.
      map_of (phi_of (projr (solar_system_gravitational_potential earth_only))) ''earth'' =
        Some curve \<and>
      (\<forall>(d, v)\<in>set curve.
         \<exists>u. get_phi (5.97 * 10 ^ 24) (6371 * 10 ^ 3) \<bar>149.6 * 10 ^ 9 - d\<bar> = Inr u \<and>
             v = Finite (- u)))"
proof -
  let ?res = "projr (solar_system_gravitational_potential earth_only)"
  let ?p = "\<lparr>pM = 5.97 * 10 ^ 24, pS = 149.6 * 10 ^ 9, pR = 6371 * 10 ^ 3\<rparr>"
  have mem: "(''earth'', ?p) \<in> set (data_of ?res)"
    by (simp add: earth_only_data)
  have R: "0 < pR ?p" by simp
  from body_curve_values [OF earth_only_res mem] R obtain curve where
    "''earth'' \<noteq> ''all'' \<longrightarrow> map_of (phi_of ?res) ''earth'' = Some curve"
    "\<forall>(d, v)\<in>set curve.
        \<exists>u. get_phi (pM ?p) (pR ?p) \<bar>pS ?p - d\<bar> = Inr u \<and> v = Finite (- u) \<and>
            v = np_neg (get_phi_np (pM ?p) (pR ?p) \<bar>pS ?p - d\<bar>)"
    by blast
  then have "map_of (phi_of ?res) ''earth'' = Some curve \<and>
      (\<forall>(d, v)\<in>set curve.
         \<exists>u. get_phi (5.97 * 10 ^ 24) (6371 * 10 ^ 3) \<bar>149.6 * 10 ^ 9 - d\<bar> = Inr u \<and>
             v = Finite (- u))"
    by (simp add: case_prod_beta) blast
  then have ex: "\<exists>curve. map_of (phi_of ?res) ''earth'' = Some curve \<and>
      (\<forall>(d, v)\<in>set curve.
         \<exists>u. get_phi (5.97 * 10 ^ 24) (6371 * 10 ^ 3) \<bar>149.6 * 10 ^ 9 - d\<bar> = Inr u \<and>
             v = Finite (- u))"
    by (intro exI [of _ curve])
  have pos: "(0::real) < 6371 * 10 ^ 3"
    by simp
  show ?thesis
    by (intro conjI earth_only_res mem pos ex)
qed

end
